theory Spec2Isabelle
  imports Main "HOL-Library.Word"
begin

unbundle bit_operations_syntax

section \<open>Versions\<close>

text \<open>
  \<^verbatim>\<open>struct ApiVersion { uint32_t major; uint32_t minor; uint32_t revision; ... }\<close>
  (Library.hpp). The fields are only ever compared, never added or subtracted, so they
  are natural numbers here; the one constant that depends on the width,
  \<^verbatim>\<open>std::numeric_limits<unsigned>::max()\<close>, is written out as \<open>UINT_MAX\<close>.
\<close>

record ApiVersion =
  major :: nat
  minor :: nat
  revision :: nat

definition UINT_MAX :: nat where
  "UINT_MAX = 4294967295"

definition mkApiVersion :: "nat \<Rightarrow> nat \<Rightarrow> nat \<Rightarrow> ApiVersion" where
  "mkApiVersion maj mi r = \<lparr>major = maj, minor = mi, revision = r\<rparr>"

text \<open>
  \<^verbatim>\<open>constexpr auto operator<=>(ApiVersion const &another) const = default;\<close>
  compares the members in declaration order: major, then minor, then revision.
\<close>

definition ver_less :: "ApiVersion \<Rightarrow> ApiVersion \<Rightarrow> bool" where
  "ver_less a b \<longleftrightarrow>
     major a < major b \<or>
     (major a = major b \<and>
        (minor a < minor b \<or> (minor a = minor b \<and> revision a < revision b)))"

definition ver_greater :: "ApiVersion \<Rightarrow> ApiVersion \<Rightarrow> bool" where
  "ver_greater a b \<longleftrightarrow> ver_less b a"

definition ver_le :: "ApiVersion \<Rightarrow> ApiVersion \<Rightarrow> bool" where
  "ver_le a b \<longleftrightarrow> \<not> ver_less b a"

text \<open>A version pair \<open>(M, m)\<close> of a core table class, ordered lexicographically.\<close>

definition pair_le :: "nat \<times> nat \<Rightarrow> nat \<times> nat \<Rightarrow> bool" where
  "pair_le a b \<longleftrightarrow> fst a < fst b \<or> (fst a = fst b \<and> snd a \<le> snd b)"

definition pair_less :: "nat \<times> nat \<Rightarrow> nat \<times> nat \<Rightarrow> bool" where
  "pair_less a b \<longleftrightarrow> fst a < fst b \<or> (fst a = fst b \<and> snd a < snd b)"

text \<open>Decimal rendering, as \<^verbatim>\<open>operator<<\<close> prints an unsigned number.\<close>

definition digit_char :: "nat \<Rightarrow> char" where
  "digit_char d = char_of (48 + d)"

function to_string :: "nat \<Rightarrow> string" where
  "to_string n = (if n < 10 then [digit_char n]
                  else to_string (n div 10) @ [digit_char (n mod 10)])"
  by pat_completeness auto
termination
  by (relation "measure (\<lambda>n. n)") auto

definition ApiVersion_string :: "ApiVersion \<Rightarrow> string" where
  "ApiVersion_string ver =
     to_string (major ver) @ ''.'' @ to_string (minor ver) @ ''.'' @ to_string (revision ver)"

text \<open>
  \<^verbatim>\<open>constexpr operator uint32_t() const { return VK_MAKE_API_VERSION(0, major, minor,
  revision); }\<close>, with the macro of the Vulkan headers,
  \<^verbatim>\<open>((((uint32_t)(variant)) << 29U) | (((uint32_t)(major)) << 22U) |
  (((uint32_t)(minor)) << 12U) | ((uint32_t)(patch)))\<close>: the fields are shifted and or-ed
  as they are, none is masked to the width of its slot.
\<close>

definition VK_MAKE_API_VERSION :: "nat \<Rightarrow> nat \<Rightarrow> nat \<Rightarrow> nat \<Rightarrow> 32 word" where
  "VK_MAKE_API_VERSION variant maj mi patch =
     push_bit 29 (word_of_nat variant) OR push_bit 22 (word_of_nat maj) OR
     push_bit 12 (word_of_nat mi) OR word_of_nat patch"

definition ApiVersion_uint32 :: "ApiVersion \<Rightarrow> 32 word" where
  "ApiVersion_uint32 ver = VK_MAKE_API_VERSION 0 (major ver) (minor ver) (revision ver)"

section \<open>Errors\<close>

text \<open>
  \<^verbatim>\<open>VkResult\<close>: the codes that \<^verbatim>\<open>VulkanError::errorString\<close> distinguishes, with
  \<^verbatim>\<open>VK_SUCCESS\<close> and \<^verbatim>\<open>VK_ERROR_UNKNOWN\<close>.
\<close>

datatype VkResult =
    VK_SUCCESS
  | VK_NOT_READY
  | VK_TIMEOUT
  | VK_EVENT_SET
  | VK_EVENT_RESET
  | VK_INCOMPLETE
  | VK_ERROR_OUT_OF_HOST_MEMORY
  | VK_ERROR_OUT_OF_DEVICE_MEMORY
  | VK_ERROR_OUT_OF_POOL_MEMORY
  | VK_ERROR_INITIALIZATION_FAILED
  | VK_ERROR_DEVICE_LOST
  | VK_ERROR_MEMORY_MAP_FAILED
  | VK_ERROR_LAYER_NOT_PRESENT
  | VK_ERROR_EXTENSION_NOT_PRESENT
  | VK_ERROR_FEATURE_NOT_PRESENT
  | VK_ERROR_INCOMPATIBLE_DRIVER
  | VK_ERROR_TOO_MANY_OBJECTS
  | VK_ERROR_FORMAT_NOT_SUPPORTED
  | VK_ERROR_SURFACE_LOST_KHR
  | VK_ERROR_NATIVE_WINDOW_IN_USE_KHR
  | VK_SUBOPTIMAL_KHR
  | VK_ERROR_OUT_OF_DATE_KHR
  | VK_ERROR_INCOMPATIBLE_DISPLAY_KHR
  | VK_ERROR_VALIDATION_FAILED_EXT
  | VK_ERROR_INVALID_SHADER_NV
  | VK_ERROR_UNKNOWN

fun errorString :: "VkResult \<Rightarrow> string" where
  "errorString VK_NOT_READY = ''NOT_READY''"
| "errorString VK_TIMEOUT = ''TIMEOUT''"
| "errorString VK_EVENT_SET = ''EVENT_SET''"
| "errorString VK_EVENT_RESET = ''EVENT_RESET''"
| "errorString VK_INCOMPLETE = ''INCOMPLETE''"
| "errorString VK_ERROR_OUT_OF_HOST_MEMORY = ''ERROR_OUT_OF_HOST_MEMORY''"
| "errorString VK_ERROR_OUT_OF_DEVICE_MEMORY = ''ERROR_OUT_OF_DEVICE_MEMORY''"
| "errorString VK_ERROR_OUT_OF_POOL_MEMORY = ''ERROR_OUT_OF_POOL_MEMORY''"
| "errorString VK_ERROR_INITIALIZATION_FAILED = ''ERROR_INITIALIZATION_FAILED''"
| "errorString VK_ERROR_DEVICE_LOST = ''ERROR_DEVICE_LOST''"
| "errorString VK_ERROR_MEMORY_MAP_FAILED = ''ERROR_MEMORY_MAP_FAILED''"
| "errorString VK_ERROR_LAYER_NOT_PRESENT = ''ERROR_LAYER_NOT_PRESENT''"
| "errorString VK_ERROR_EXTENSION_NOT_PRESENT = ''ERROR_EXTENSION_NOT_PRESENT''"
| "errorString VK_ERROR_FEATURE_NOT_PRESENT = ''ERROR_FEATURE_NOT_PRESENT''"
| "errorString VK_ERROR_INCOMPATIBLE_DRIVER = ''ERROR_INCOMPATIBLE_DRIVER''"
| "errorString VK_ERROR_TOO_MANY_OBJECTS = ''ERROR_TOO_MANY_OBJECTS''"
| "errorString VK_ERROR_FORMAT_NOT_SUPPORTED = ''ERROR_FORMAT_NOT_SUPPORTED''"
| "errorString VK_ERROR_SURFACE_LOST_KHR = ''ERROR_SURFACE_LOST_KHR''"
| "errorString VK_ERROR_NATIVE_WINDOW_IN_USE_KHR = ''ERROR_NATIVE_WINDOW_IN_USE_KHR''"
| "errorString VK_SUBOPTIMAL_KHR = ''SUBOPTIMAL_KHR''"
| "errorString VK_ERROR_OUT_OF_DATE_KHR = ''ERROR_OUT_OF_DATE_KHR''"
| "errorString VK_ERROR_INCOMPATIBLE_DISPLAY_KHR = ''ERROR_INCOMPATIBLE_DISPLAY_KHR''"
| "errorString VK_ERROR_VALIDATION_FAILED_EXT = ''ERROR_VALIDATION_FAILED_EXT''"
| "errorString VK_ERROR_INVALID_SHADER_NV = ''ERROR_INVALID_SHADER_NV''"
| "errorString _ = ''UNKNOWN_ERROR''"

text \<open>
  The enums \<^verbatim>\<open>ext\<close> and \<^verbatim>\<open>layer\<close> are dense: an enumerator is its position in the
  generated list.
\<close>

type_synonym ext = nat
type_synonym layer = nat

text \<open>
  The error classes that the code modelled here posts, all derived from
  \<^verbatim>\<open>vkw::Error\<close> (the classes of the shader, render pass, queue, feature and SPIR-V code
  are not among them). Each constructor carries the
  arguments of the C++ constructor; \<open>what\<close> is the message the C++ constructor hands to
  \<^verbatim>\<open>std::runtime_error\<close>, \<open>codeString\<close> the class's override.
\<close>

datatype CompatibilityFactor = SEM_VERSION | EXACT_VERSION

datatype error =
    LogicError string
  | ApiVersionUnsupported string ApiVersion ApiVersion CompatibilityFactor
  | SymbolsMissing ApiVersion ApiVersion
  | VulkanLoadError string
  | ExtensionNameError string
  | LayerNameError string
  | ExtensionMissing ext string
  | ExtensionUnsupported ext string
  | LayerMissing layer string
  | LayerUnsupported layer string
  | VulkanError VkResult string nat

fun what :: "error \<Rightarrow> string" where
  "what (LogicError w) = w"
| "what (ApiVersionUnsupported details lastSupported unsupported compatibility) =
     details @ '': '' @ ApiVersion_string unsupported @ '' is unsupported ('' @
     (if compatibility = EXACT_VERSION then ''supported: =='' else ''supported: >='') @
     ApiVersion_string lastSupported @ '')''"
| "what (SymbolsMissing loaded requested) =
     ''vulkan symbols for '' @ ApiVersion_string requested @
     '' version are unavailable. Most recent version loaded: '' @ ApiVersion_string loaded"
| "what (VulkanLoadError details) = details"
| "what (ExtensionNameError n) = n"
| "what (LayerNameError n) = n"
| "what (ExtensionMissing i n) = n"
| "what (ExtensionUnsupported i n) = n"
| "what (LayerMissing i n) = n"
| "what (LayerUnsupported i n) = n"
| "what (VulkanError res filename line) =
     (''Vulkan function call returned VkResult: '' @ errorString res) @
     [CHR 0x0A] @ '' in file '' @ filename @ '' on line '' @ to_string line"

fun codeString :: "error \<Rightarrow> string" where
  "codeString (LogicError _) = ''logic error''"
| "codeString (ApiVersionUnsupported _ _ _ _) = ''API version unsupported''"
| "codeString (SymbolsMissing _ _) = ''Symbols missing''"
| "codeString (VulkanLoadError _) = ''Vulkan load error''"
| "codeString (ExtensionNameError _) = ''Bad extension name''"
| "codeString (LayerNameError _) = ''Bad layer name''"
| "codeString (ExtensionMissing _ _) = ''Extension missing''"
| "codeString (ExtensionUnsupported _ _) = ''Extension unsupported''"
| "codeString (LayerMissing _ _) = ''Layer missing''"
| "codeString (LayerUnsupported _ _) = ''Layer unsupported''"
| "codeString (VulkanError _ _ _) = ''Vulkan error''"

text \<open>\<^verbatim>\<open>ExtensionError::extName\<close>, \<^verbatim>\<open>LayerError::layerName\<close> and the name errors'
  \<^verbatim>\<open>name\<close> all return \<^verbatim>\<open>what()\<close>.\<close>

definition extName :: "error \<Rightarrow> string" where
  "extName e = what e"

definition layerName :: "error \<Rightarrow> string" where
  "layerName e = what e"

section \<open>The generated tables\<close>

text \<open>
  \<^verbatim>\<open>vkw/SymbolTable.inc\<close> and \<^verbatim>\<open>vkw/LayerMap.inc\<close> are generated at build time and
  are parameters here: the extension enumerators, the layer enumerators, and the versions
  \<open>(M, m)\<close> for which \<^verbatim>\<open>InstanceCore<M, m>\<close> and \<^verbatim>\<open>DeviceCore<M, m>\<close> are defined.
\<close>

record SymbolTable =
  ext_entries :: "string list"
  layer_entries :: "string list"
  instance_cores :: "(nat \<times> nat) list"
  device_cores :: "(nat \<times> nat) list"

text \<open>
  \<^verbatim>\<open>#define VKW_EXTENSION_ENTRY(X) STRINGIFY(VK_##X),\<close> and
  \<^verbatim>\<open>#define VKW_LAYER_MAP_ENTRY(X) STRINGIFY(VK_LAYER_##X),\<close>
\<close>

definition ExtensionNames :: "SymbolTable \<Rightarrow> string list" where
  "ExtensionNames st = map (\<lambda>X. ''VK_'' @ X) (ext_entries st)"

definition LayerNames :: "SymbolTable \<Rightarrow> string list" where
  "LayerNames st = map (\<lambda>X. ''VK_LAYER_'' @ X) (layer_entries st)"

text \<open>
  \<^verbatim>\<open>std::find_if(begin, end, pred) - begin\<close>: the position of the first element satisfying
  the predicate, the length of the range when there is none.
\<close>

fun find_if :: "('a \<Rightarrow> bool) \<Rightarrow> 'a list \<Rightarrow> nat" where
  "find_if P [] = 0"
| "find_if P (x # xs) = (if P x then 0 else Suc (find_if P xs))"

text \<open>The value of an enumerator: its position in the enum's declaration.\<close>

definition enumerator :: "string list \<Rightarrow> string \<Rightarrow> nat" where
  "enumerator entries X = find_if (\<lambda>e. e = X) entries"

definition KHR_get_physical_device_properties2 :: "SymbolTable \<Rightarrow> ext" where
  "KHR_get_physical_device_properties2 st =
     enumerator (ext_entries st) ''KHR_get_physical_device_properties2''"

definition EXT_memory_budget :: "SymbolTable \<Rightarrow> ext" where
  "EXT_memory_budget st = enumerator (ext_entries st) ''EXT_memory_budget''"

text \<open>
  \<^verbatim>\<open>Library::ExtensionName\<close> and \<^verbatim>\<open>Library::LayerName\<close> index the name array; the
  \<^verbatim>\<open>assert\<close> in front documents that the argument is an enumerator, and every use
  below that depends on the name carries \<open>valid_ext\<close> or \<open>valid_layer\<close>.
\<close>

definition valid_ext :: "SymbolTable \<Rightarrow> ext \<Rightarrow> bool" where
  "valid_ext st i \<longleftrightarrow> i < length (ExtensionNames st)"

definition valid_layer :: "SymbolTable \<Rightarrow> layer \<Rightarrow> bool" where
  "valid_layer st i \<longleftrightarrow> i < length (LayerNames st)"

definition ExtensionName :: "SymbolTable \<Rightarrow> ext \<Rightarrow> string" where
  "ExtensionName st i = ExtensionNames st ! i"

definition LayerName :: "SymbolTable \<Rightarrow> layer \<Rightarrow> string" where
  "LayerName st i = LayerNames st ! i"

definition ExtensionId :: "SymbolTable \<Rightarrow> string \<Rightarrow> error + ext" where
  "ExtensionId st extensionName =
     (let found = find_if (\<lambda>entry. extensionName = entry) (ExtensionNames st)
      in if found = length (ExtensionNames st)
         then Inl (ExtensionNameError extensionName)
         else Inr found)"

definition ValidExtensionName :: "SymbolTable \<Rightarrow> string \<Rightarrow> bool" where
  "ValidExtensionName st extensionName =
     (let found = find_if (\<lambda>entry. extensionName = entry) (ExtensionNames st)
      in found \<noteq> length (ExtensionNames st))"

definition LayerId :: "SymbolTable \<Rightarrow> string \<Rightarrow> error + layer" where
  "LayerId st layerName' =
     (let found = find_if (\<lambda>entry. layerName' = entry) (LayerNames st)
      in if found = length (LayerNames st)
         then Inl (LayerNameError layerName')
         else Inr found)"

definition ValidLayerName :: "SymbolTable \<Rightarrow> string \<Rightarrow> bool" where
  "ValidLayerName st layerName' =
     (let found = find_if (\<lambda>entry. layerName' = entry) (LayerNames st)
      in found \<noteq> length (LayerNames st))"

text \<open>
  A C++ enum cannot declare the same enumerator twice, so the generated lists have no
  repetition.
\<close>

definition wf_tables :: "SymbolTable \<Rightarrow> bool" where
  "wf_tables st \<longleftrightarrow> distinct (ext_entries st) \<and> distinct (layer_entries st)"

section \<open>Library\<close>

text \<open>
  What \<^verbatim>\<open>CompiledInstanceCreateInfo\<close> hands to the native create call:
  \<^verbatim>\<open>appInfo.apiVersion\<close>, a \<^verbatim>\<open>uint32_t\<close>, and the two name arrays
  (\<^verbatim>\<open>ppEnabledExtensionNames\<close>, \<^verbatim>\<open>ppEnabledLayerNames\<close>).
\<close>

record CompiledInstanceCreateInfo =
  appInfo_apiVersion :: "32 word"
  reqExtensionsNames :: "string list"
  reqLayerNames :: "string list"

type_synonym VkInstance = nat
type_synonym VkDevice = nat
type_synonym PFN = nat

text \<open>
  \<^verbatim>\<open>class Library\<close> after its constructor has run: the enumerated layer and extension
  properties (their names), and the entry points it resolved. A function pointer that may
  be null is an option; \<open>vkEnumerateInstanceVersion\<close> is the pointer together with the
  version its call reports, decoded. \<open>InstanceCore_ctor\<close> is the outcome of running the
  generated constructor of \<^verbatim>\<open>InstanceCore<M, m>\<close> against this library's resolver
  (\<open>None\<close>: every entry resolved).
\<close>

record Library =
  m_layer_properties :: "string list"
  m_instance_extension_properties :: "string list"
  vkEnumerateInstanceVersion :: "ApiVersion option"
  vkCreateInstance :: "CompiledInstanceCreateInfo \<Rightarrow> VkResult \<times> VkInstance"
  vkGetInstanceProcAddr :: "VkInstance \<Rightarrow> string \<Rightarrow> PFN option"
  InstanceCore_ctor :: "nat \<times> nat \<Rightarrow> error option"

definition hasLayer :: "SymbolTable \<Rightarrow> Library \<Rightarrow> layer \<Rightarrow> bool" where
  "hasLayer st lib layerId =
     (let layerName' = LayerName st layerId
      in list_ex (\<lambda>layer. layerName' = layer) (m_layer_properties lib))"

definition hasInstanceExtension :: "SymbolTable \<Rightarrow> Library \<Rightarrow> ext \<Rightarrow> bool" where
  "hasInstanceExtension st lib extensionId =
     (let name = ExtensionName st extensionId
      in list_ex (\<lambda>layer. name = layer) (m_instance_extension_properties lib))"

definition instanceAPIVersion :: "Library \<Rightarrow> ApiVersion" where
  "instanceAPIVersion lib =
     (case vkEnumerateInstanceVersion lib of
        None \<Rightarrow> mkApiVersion 1 0 0
      | Some encoded \<Rightarrow> encoded)"

section \<open>Instance\<close>

record InstanceCreateInfo =
  requestedExtensions :: "ext list"
  requestedLayers :: "layer list"
  apiVersion :: ApiVersion

definition requestApiVersion_CI :: "InstanceCreateInfo \<Rightarrow> ApiVersion \<Rightarrow> InstanceCreateInfo" where
  "requestApiVersion_CI CI version = CI\<lparr>apiVersion := version\<rparr>"

definition requestExtension :: "InstanceCreateInfo \<Rightarrow> ext \<Rightarrow> InstanceCreateInfo" where
  "requestExtension CI e = CI\<lparr>requestedExtensions := requestedExtensions CI @ [e]\<rparr>"

definition requestLayer :: "InstanceCreateInfo \<Rightarrow> layer \<Rightarrow> InstanceCreateInfo" where
  "requestLayer CI l = CI\<lparr>requestedLayers := requestedLayers CI @ [l]\<rparr>"

text \<open>The default-constructed \<^verbatim>\<open>InstanceCreateInfo\<close>.\<close>

definition InstanceCreateInfo_default :: InstanceCreateInfo where
  "InstanceCreateInfo_default =
     \<lparr>requestedExtensions = [], requestedLayers = [], apiVersion = mkApiVersion 1 0 0\<rparr>"

text \<open>
  The constructor of \<^verbatim>\<open>CompiledInstanceCreateInfo\<close>. \<^verbatim>\<open>postError\<close> does not return,
  so each \<^verbatim>\<open>std::for_each\<close> stops at the first element that posts.
  \<^verbatim>\<open>appInfo.apiVersion = CI.apiVersion\<close> converts the version to \<^verbatim>\<open>uint32_t\<close>.
\<close>

definition CompiledInstanceCreateInfo_ctor ::
  "SymbolTable \<Rightarrow> Library \<Rightarrow> InstanceCreateInfo \<Rightarrow> error + CompiledInstanceCreateInfo" where
  "CompiledInstanceCreateInfo_ctor st library CI =
     (if ver_less (instanceAPIVersion library) (apiVersion CI) then
        Inl (ApiVersionUnsupported ''Cannot create instance with requested api version''
               (instanceAPIVersion library) (apiVersion CI) SEM_VERSION)
      else
        case find (\<lambda>i. \<not> hasLayer st library i) (requestedLayers CI) of
          Some i \<Rightarrow> Inl (LayerUnsupported i (LayerName st i))
        | None \<Rightarrow>
           (case find (\<lambda>i. \<not> hasInstanceExtension st library i) (requestedExtensions CI) of
              Some i \<Rightarrow> Inl (ExtensionUnsupported i (ExtensionName st i))
            | None \<Rightarrow>
               (let requestedExtensions' =
                      (if hasInstanceExtension st library (KHR_get_physical_device_properties2 st) \<and>
                          \<not> list_ex (\<lambda>extension. extension = KHR_get_physical_device_properties2 st)
                               (requestedExtensions CI)
                       then requestedExtensions CI @ [KHR_get_physical_device_properties2 st]
                       else requestedExtensions CI)
                in Inr \<lparr>appInfo_apiVersion = ApiVersion_uint32 (apiVersion CI),
                         reqExtensionsNames = map (ExtensionName st) requestedExtensions',
                         reqLayerNames = map (LayerName st) (requestedLayers CI)\<rparr>)))"

text \<open>
  \<^verbatim>\<open>VK_CHECK_RESULT\<close> posts a \<^verbatim>\<open>VulkanError\<close> with \<^verbatim>\<open>__FILE__\<close> and
  \<^verbatim>\<open>__LINE__\<close> of its use; the file is named here as the headers include it.
\<close>

definition InstanceDestructor_create ::
  "Library \<Rightarrow> CompiledInstanceCreateInfo \<Rightarrow> error + VkInstance" where
  "InstanceDestructor_create library createInfo =
     (case vkCreateInstance library createInfo of
        (res, ret) \<Rightarrow>
          if res \<noteq> VK_SUCCESS then Inl (VulkanError res ''vkw/Instance.hpp'' 128)
          else Inr ret)"

text \<open>
  \<^verbatim>\<open>loadInstanceSymbols<major, minor>\<close> and \<^verbatim>\<open>loadDeviceSymbols<major, minor>\<close> are
  the same template up to the table family, the message and the constructor called at the
  end. \<open>cores\<close> lists the versions whose class derives from \<^verbatim>\<open>SymbolTableBase\<close>;
  \<open>ctor\<close> is the generated constructor of the class reached. The template parameters are
  compile-time constants of a short generated list and are natural numbers here.
\<close>

function loadSymbols ::
  "(nat \<times> nat) list \<Rightarrow> string \<Rightarrow> (nat \<times> nat \<Rightarrow> error option) \<Rightarrow>
   nat \<Rightarrow> nat \<Rightarrow> ApiVersion \<Rightarrow> error + (nat \<times> nat)" where
  "loadSymbols cores details ctor M m version =
     (if ver_greater version (mkApiVersion M m UINT_MAX) then
        (if (M, m + 1) \<in> set cores then loadSymbols cores details ctor M (m + 1) version
         else if (M + 1, 0) \<in> set cores then loadSymbols cores details ctor (M + 1) 0 version
         else Inl (ApiVersionUnsupported details (mkApiVersion M m 0) version SEM_VERSION))
      else
        (case ctor (M, m) of
           Some e \<Rightarrow> Inl e
         | None \<Rightarrow> Inr (M, m)))"
  by pat_completeness auto
termination
proof (relation "measure (\<lambda>(cores, details, ctor, M, m, version).
                   card {t \<in> set cores. pair_less (M, m) t})")
  show "wf (measure (\<lambda>(cores, details, ctor, M, m, version).
                   card {t \<in> set cores. pair_less (M, m) t}))"
    by simp
next
  fix cores :: "(nat \<times> nat) list" and details :: string
    and ctor :: "nat \<times> nat \<Rightarrow> error option" and M m :: nat and version :: ApiVersion
  assume next_defined: "(M, m + 1) \<in> set cores"
  have "{t \<in> set cores. pair_less (M, m + 1) t} \<subseteq> {t \<in> set cores. pair_less (M, m) t}"
    by (auto simp: pair_less_def)
  moreover from next_defined have "(M, m + 1) \<in> {t \<in> set cores. pair_less (M, m) t}"
    by (simp add: pair_less_def)
  moreover have "(M, m + 1) \<notin> {t \<in> set cores. pair_less (M, m + 1) t}"
    by (simp add: pair_less_def)
  ultimately
  have "{t \<in> set cores. pair_less (M, m + 1) t} \<subset> {t \<in> set cores. pair_less (M, m) t}"
    by blast
  then have "card {t \<in> set cores. pair_less (M, m + 1) t} < card {t \<in> set cores. pair_less (M, m) t}"
    by (intro psubset_card_mono) auto
  then show "((cores, details, ctor, M, m + 1, version), (cores, details, ctor, M, m, version))
        \<in> measure (\<lambda>(cores, details, ctor, M, m, version).
                   card {t \<in> set cores. pair_less (M, m) t})"
    by simp
next
  fix cores :: "(nat \<times> nat) list" and details :: string
    and ctor :: "nat \<times> nat \<Rightarrow> error option" and M m :: nat and version :: ApiVersion
  assume next_defined: "(M + 1, 0) \<in> set cores"
  have "{t \<in> set cores. pair_less (M + 1, 0) t} \<subseteq> {t \<in> set cores. pair_less (M, m) t}"
    by (auto simp: pair_less_def)
  moreover from next_defined have "(M + 1, 0) \<in> {t \<in> set cores. pair_less (M, m) t}"
    by (simp add: pair_less_def)
  moreover have "(M + 1, 0) \<notin> {t \<in> set cores. pair_less (M + 1, 0) t}"
    by (simp add: pair_less_def)
  ultimately
  have "{t \<in> set cores. pair_less (M + 1, 0) t} \<subset> {t \<in> set cores. pair_less (M, m) t}"
    by blast
  then have "card {t \<in> set cores. pair_less (M + 1, 0) t} < card {t \<in> set cores. pair_less (M, m) t}"
    by (intro psubset_card_mono) auto
  then show "((cores, details, ctor, M + 1, 0, version), (cores, details, ctor, M, m, version))
        \<in> measure (\<lambda>(cores, details, ctor, M, m, version).
                   card {t \<in> set cores. pair_less (M, m) t})"
    by simp
qed

declare loadSymbols.simps [simp del]

definition loadInstanceSymbols :: "SymbolTable \<Rightarrow> Library \<Rightarrow> ApiVersion \<Rightarrow> error + (nat \<times> nat)" where
  "loadInstanceSymbols st library version =
     loadSymbols (instance_cores st)
       ''Could not load instance symbols for requested api version''
       (InstanceCore_ctor library) 1 0 version"

text \<open>
  \<^verbatim>\<open>class Instance\<close>. \<open>m_coreInstanceSymbols\<close> is the class of the object the pointer
  owns; the two \<^verbatim>\<open>std::set\<close>s are sets.
\<close>

record Instance =
  instance_handle :: VkInstance
  instance_parent :: Library
  m_apiVer :: ApiVersion
  m_coreInstanceSymbols :: "nat \<times> nat"
  m_enabledExtensions :: "ext set"
  m_enabledLayers :: "layer set"

definition Instance_ctor :: "SymbolTable \<Rightarrow> Library \<Rightarrow> InstanceCreateInfo \<Rightarrow> error + Instance" where
  "Instance_ctor st library createInfo =
     (case CompiledInstanceCreateInfo_ctor st library createInfo of
        Inl e \<Rightarrow> Inl e
      | Inr compiled \<Rightarrow>
         (case InstanceDestructor_create library compiled of
            Inl e \<Rightarrow> Inl e
          | Inr h \<Rightarrow>
             (case loadInstanceSymbols st library (apiVersion createInfo) of
                Inl e \<Rightarrow> Inl e
              | Inr symbols \<Rightarrow>
                 Inr \<lparr>instance_handle = h,
                      instance_parent = library,
                      m_apiVer = apiVersion createInfo,
                      m_coreInstanceSymbols = symbols,
                      m_enabledExtensions = set (requestedExtensions createInfo),
                      m_enabledLayers = set (requestedLayers createInfo)\<rparr>)))"

definition isExtensionEnabled :: "Instance \<Rightarrow> ext \<Rightarrow> bool" where
  "isExtensionEnabled inst extension \<longleftrightarrow> extension \<in> m_enabledExtensions inst"

definition isLayerEnabled :: "Instance \<Rightarrow> layer \<Rightarrow> bool" where
  "isLayerEnabled inst l \<longleftrightarrow> l \<in> m_enabledLayers inst"

text \<open>
  \<^verbatim>\<open>Instance::core<major, minor>()\<close> and \<^verbatim>\<open>Device::core<major, minor>()\<close>: the
  version gate, then the loaded object seen through a \<^verbatim>\<open>static_cast\<close> to the class
  asked for. The value returned is the class of the loaded object.
\<close>

definition core :: "ApiVersion \<Rightarrow> nat \<times> nat \<Rightarrow> nat \<Rightarrow> nat \<Rightarrow> error + (nat \<times> nat)" where
  "core apiVer symbols M m =
     (let requested = mkApiVersion M m 0
      in if ver_less apiVer requested then Inl (SymbolsMissing apiVer requested)
         else Inr symbols)"

definition Instance_core :: "Instance \<Rightarrow> nat \<Rightarrow> nat \<Rightarrow> error + (nat \<times> nat)" where
  "Instance_core inst M m = core (m_apiVer inst) (m_coreInstanceSymbols inst) M m"

section \<open>PhysicalDevice\<close>

text \<open>
  What the driver reports for one \<^verbatim>\<open>VkPhysicalDevice\<close>: the version in its
  properties, the count the first \<^verbatim>\<open>vkEnumerateDeviceExtensionProperties\<close> call
  writes, the result of the second call and the names in the vector after it, the
  outcome of \<^verbatim>\<open>vkCreateDevice\<close> for a given name array, and the outcome of the
  generated constructor of \<^verbatim>\<open>DeviceCore<M, m>\<close> (\<open>None\<close>: every entry resolved).
\<close>

record NativePhysicalDevice =
  nd_handle :: nat
  nd_apiVersion :: ApiVersion
  nd_extCount :: nat
  nd_enumerateResult :: VkResult
  nd_extensions :: "string list"
  nd_vkCreateDevice :: "string list \<Rightarrow> VkResult \<times> VkDevice"
  DeviceCore_ctor :: "nat \<times> nat \<Rightarrow> error option"

text \<open>
  \<^verbatim>\<open>class PhysicalDevice\<close>; its \<^verbatim>\<open>m_enabledExtensions\<close> is
  \<open>m_enabledExtensions_pd\<close> here, the name being taken by \<^verbatim>\<open>Instance\<close>.
\<close>

record PhysicalDevice =
  m_physicalDevice :: NativePhysicalDevice
  m_supportedExtensions :: "ext list"
  m_enabledExtensions_pd :: "ext list"
  m_requestedApiVersion :: ApiVersion

text \<open>The loop at the end of the constructor, over the enumerated properties.\<close>

fun supportedExtensions_loop :: "SymbolTable \<Rightarrow> string list \<Rightarrow> ext list \<Rightarrow> error + ext list" where
  "supportedExtensions_loop st [] acc = Inr acc"
| "supportedExtensions_loop st (props # rest) acc =
     (if \<not> ValidExtensionName st props then supportedExtensions_loop st rest acc
      else case ExtensionId st props of
             Inl e \<Rightarrow> Inl e
           | Inr i \<Rightarrow> supportedExtensions_loop st rest (acc @ [i]))"

definition PhysicalDevice_ctor ::
  "SymbolTable \<Rightarrow> Instance \<Rightarrow> NativePhysicalDevice \<Rightarrow> error + PhysicalDevice" where
  "PhysicalDevice_ctor st inst device =
     (case Instance_core inst 1 0 of
        Inl e \<Rightarrow> Inl e
      | Inr c10 \<Rightarrow>
         (case (if ver_le (mkApiVersion 1 1 0) (m_apiVer inst)
                then Instance_core inst 1 1 else Inr c10) of
            Inl e \<Rightarrow> Inl e
          | Inr c11 \<Rightarrow>
             (let extCount = nd_extCount device;
                  empty = \<lparr>m_physicalDevice = device, m_supportedExtensions = [],
                            m_enabledExtensions_pd = [],
                            m_requestedApiVersion = mkApiVersion 1 0 0\<rparr>
              in if extCount > 0 then
                   (if nd_enumerateResult device = VK_SUCCESS then
                      (case supportedExtensions_loop st (nd_extensions device) [] of
                         Inl e \<Rightarrow> Inl e
                       | Inr supported \<Rightarrow> Inr (empty\<lparr>m_supportedExtensions := supported\<rparr>))
                    else Inr empty)
                 else Inr empty)))"

definition supportedApiVersion :: "PhysicalDevice \<Rightarrow> ApiVersion" where
  "supportedApiVersion pd = nd_apiVersion (m_physicalDevice pd)"

definition requestApiVersion :: "PhysicalDevice \<Rightarrow> ApiVersion \<Rightarrow> error + PhysicalDevice" where
  "requestApiVersion pd version =
     (if ver_greater version (supportedApiVersion pd) then
        Inl (ApiVersionUnsupported ''Cannot create device with requested version''
               (supportedApiVersion pd) version SEM_VERSION)
      else Inr (pd\<lparr>m_requestedApiVersion := version\<rparr>))"

definition requestedApiVersion :: "PhysicalDevice \<Rightarrow> ApiVersion" where
  "requestedApiVersion pd = m_requestedApiVersion pd"

definition extensionSupported :: "PhysicalDevice \<Rightarrow> ext \<Rightarrow> bool" where
  "extensionSupported pd extension \<longleftrightarrow>
     find_if (\<lambda>e. e = extension) (m_supportedExtensions pd) \<noteq> length (m_supportedExtensions pd)"

definition enableExtension :: "SymbolTable \<Rightarrow> PhysicalDevice \<Rightarrow> ext \<Rightarrow> error + PhysicalDevice" where
  "enableExtension st pd extension =
     (if \<not> extensionSupported pd extension then
        Inl (ExtensionUnsupported extension (ExtensionName st extension))
      else if find_if (\<lambda>e. e = extension) (m_enabledExtensions_pd pd)
                \<noteq> length (m_enabledExtensions_pd pd) then
        Inr pd
      else Inr (pd\<lparr>m_enabledExtensions_pd := m_enabledExtensions_pd pd @ [extension]\<rparr>))"

text \<open>\<^verbatim>\<open>PhysicalDevice::isExtensionEnabled\<close>: \<^verbatim>\<open>std::ranges::count\<close> converted to bool.\<close>

definition isExtensionEnabled_pd :: "PhysicalDevice \<Rightarrow> ext \<Rightarrow> bool" where
  "isExtensionEnabled_pd pd i \<longleftrightarrow> count_list (m_enabledExtensions_pd pd) i \<noteq> 0"

section \<open>Device\<close>

text \<open>\<^verbatim>\<open>class DeviceInfo\<close>; its \<^verbatim>\<open>m_apiVer\<close> is \<open>m_apiVer_info\<close> here.\<close>

record DeviceInfo =
  m_ph_device :: PhysicalDevice
  m_enabledExtensionsRaw :: "string list"
  m_apiVer_info :: ApiVersion

definition DeviceInfo_ctor :: "SymbolTable \<Rightarrow> Instance \<Rightarrow> PhysicalDevice \<Rightarrow> error + DeviceInfo" where
  "DeviceInfo_ctor st parent phDevice =
     (case (if isExtensionEnabled parent (KHR_get_physical_device_properties2 st) \<and>
               extensionSupported phDevice (EXT_memory_budget st) \<and>
               \<not> list_ex (\<lambda>extension. extension = EXT_memory_budget st)
                    (m_enabledExtensions_pd phDevice)
            then enableExtension st phDevice (EXT_memory_budget st)
            else Inr phDevice) of
        Inl e \<Rightarrow> Inl e
      | Inr pd \<Rightarrow>
          Inr \<lparr>m_ph_device = pd,
                m_enabledExtensionsRaw = map (ExtensionName st) (m_enabledExtensions_pd pd),
                m_apiVer_info = requestedApiVersion pd\<rparr>)"

text \<open>
  \<^verbatim>\<open>DeviceDestructor::create\<close>: \<^verbatim>\<open>getConstructor\<close> reads
  \<^verbatim>\<open>creator.core<1, 0>().vkCreateDevice\<close> before the native call is made.
\<close>

definition DeviceDestructor_create ::
  "Instance \<Rightarrow> NativePhysicalDevice \<Rightarrow> string list \<Rightarrow> error + VkDevice" where
  "DeviceDestructor_create inst physical names =
     (case Instance_core inst 1 0 of
        Inl e \<Rightarrow> Inl e
      | Inr c10 \<Rightarrow>
         (case nd_vkCreateDevice physical names of
            (res, ret) \<Rightarrow>
              if res \<noteq> VK_SUCCESS then Inl (VulkanError res ''vkw/Device.hpp'' 44)
              else Inr ret))"

text \<open>
  \<^verbatim>\<open>loadDeviceSymbols\<close>: the argument of the constructor,
  \<^verbatim>\<open>instance.core<1, 0>().vkGetDeviceProcAddr\<close>, is evaluated before the constructor runs.
\<close>

definition loadDeviceSymbols ::
  "SymbolTable \<Rightarrow> Instance \<Rightarrow> NativePhysicalDevice \<Rightarrow> ApiVersion \<Rightarrow> error + (nat \<times> nat)" where
  "loadDeviceSymbols st inst physical version =
     loadSymbols (device_cores st)
       ''Could not load device symbols for requested api version''
       (\<lambda>t. case Instance_core inst 1 0 of
               Inl e \<Rightarrow> Some e
             | Inr c10 \<Rightarrow> DeviceCore_ctor physical t)
       1 0 version"

record Device = DeviceInfo +
  device_handle :: VkDevice
  device_parent :: Instance
  m_coreDeviceSymbols :: "nat \<times> nat"

definition Device_ctor :: "SymbolTable \<Rightarrow> Instance \<Rightarrow> PhysicalDevice \<Rightarrow> error + Device" where
  "Device_ctor st inst phDevice =
     (case DeviceInfo_ctor st inst phDevice of
        Inl e \<Rightarrow> Inl e
      | Inr info \<Rightarrow>
         (case DeviceDestructor_create inst (m_physicalDevice (m_ph_device info))
                 (m_enabledExtensionsRaw info) of
            Inl e \<Rightarrow> Inl e
          | Inr h \<Rightarrow>
             (case loadDeviceSymbols st inst (m_physicalDevice (m_ph_device info))
                     (requestedApiVersion (m_ph_device info)) of
                Inl e \<Rightarrow> Inl e
              | Inr symbols \<Rightarrow>
                 Inr \<lparr>m_ph_device = m_ph_device info,
                      m_enabledExtensionsRaw = m_enabledExtensionsRaw info,
                      m_apiVer_info = m_apiVer_info info,
                      device_handle = h,
                      device_parent = inst,
                      m_coreDeviceSymbols = symbols\<rparr>)))"

definition Device_core :: "Device \<Rightarrow> nat \<Rightarrow> nat \<Rightarrow> error + (nat \<times> nat)" where
  "Device_core dev M m = core (m_apiVer_info dev) (m_coreDeviceSymbols dev) M m"

section \<open>Extension and layer accessors\<close>

text \<open>
  The object an accessor constructor leaves behind: \<^verbatim>\<open>ExtensionBase<id, T>\<close> with the
  native handle of its level, or the empty \<^verbatim>\<open>Layer<id>\<close>.
\<close>

datatype Accessor = ExtensionAccessor ext nat | LayerAccessor layer

text \<open>
  \<^verbatim>\<open>ExtensionBase<id, Instance>\<close>: the base is initialised from
  \<^verbatim>\<open>instance.parent().vkGetInstanceProcAddr\<close>, then the enabled set is checked.
\<close>

definition ExtensionBase_Instance :: "SymbolTable \<Rightarrow> ext \<Rightarrow> Instance \<Rightarrow> error + Accessor" where
  "ExtensionBase_Instance st i h =
     (if \<not> isExtensionEnabled h i then Inl (ExtensionMissing i (ExtensionName st i))
      else Inr (ExtensionAccessor i (instance_handle h)))"

text \<open>
  \<^verbatim>\<open>ExtensionBase<id, Device>\<close>: the base is initialised from
  \<^verbatim>\<open>device.parent().core<1, 0>().vkGetDeviceProcAddr\<close> first; the enabled set asked is
  the one of the device's \<^verbatim>\<open>PhysicalDevice\<close>.
\<close>

definition ExtensionBase_Device :: "SymbolTable \<Rightarrow> ext \<Rightarrow> Device \<Rightarrow> error + Accessor" where
  "ExtensionBase_Device st i h =
     (case Instance_core (device_parent h) 1 0 of
        Inl e \<Rightarrow> Inl e
      | Inr c10 \<Rightarrow>
          if \<not> isExtensionEnabled_pd (m_ph_device h) i
          then Inl (ExtensionMissing i (ExtensionName st i))
          else Inr (ExtensionAccessor i (device_handle h)))"

definition Layer_ctor :: "SymbolTable \<Rightarrow> layer \<Rightarrow> Instance \<Rightarrow> error + Accessor" where
  "Layer_ctor st i inst =
     (if \<not> isLayerEnabled inst i then Inl (LayerMissing i (LayerName st i))
      else Inr (LayerAccessor i))"

section \<open>Error reporting\<close>

text \<open>
  How a call ends: it returns, an exception leaves it, the process is ended by
  \<^verbatim>\<open>std::terminate\<close> after the registered callbacks have run, or it calls through a
  null function pointer, after which nothing is defined (\<open>Undefined\<close>: no callback
  has run and \<^verbatim>\<open>std::terminate\<close> has not been called). A callback is
  \<^verbatim>\<open>std::function<void(const Error &)>\<close>; it is represented by what it shows for the error
  it is given, and \<open>Terminated\<close> carries what the callbacks showed, in the order they ran.
  Callbacks are taken to return: one that throws ends the process on the spot, since
  \<^verbatim>\<open>irrecoverableError\<close> is \<^verbatim>\<open>noexcept\<close>.
\<close>

datatype ('o, 'a) outcome = Returned 'a | Thrown error | Terminated "'o list" | Undefined

type_synonym 'o callbacks = "(error \<Rightarrow> 'o) list"

definition irrecoverableError :: "'o callbacks \<Rightarrow> error \<Rightarrow> ('o, 'a) outcome" where
  "irrecoverableError irrecoverableCallbacks e =
     Terminated (map (\<lambda>callback. callback e) irrecoverableCallbacks)"

definition addIrrecoverableErrorCallback :: "'o callbacks \<Rightarrow> (error \<Rightarrow> 'o) \<Rightarrow> 'o callbacks" where
  "addIrrecoverableErrorCallback irrecoverableCallbacks callback =
     irrecoverableCallbacks @ [callback]"

text \<open>
  \<^verbatim>\<open>postError\<close>; the first argument is whether the build defines
  \<^verbatim>\<open>VKW_ENABLE_EXCEPTIONS\<close>.
\<close>

definition postError :: "bool \<Rightarrow> 'o callbacks \<Rightarrow> error \<Rightarrow> ('o, 'a) outcome" where
  "postError VKW_ENABLE_EXCEPTIONS irrecoverableCallbacks e =
     (if VKW_ENABLE_EXCEPTIONS then Thrown e
      else irrecoverableError irrecoverableCallbacks e)"

text \<open>
  \<^verbatim>\<open>InstanceDestructor::operator()\<close>: a native destroy call is the resolved function
  applied to the handle.
\<close>

definition InstanceDestructor_call ::
  "Library \<Rightarrow> 'o callbacks \<Rightarrow> VkInstance \<Rightarrow> ('o, PFN \<times> VkInstance) outcome" where
  "InstanceDestructor_call m_creator irrecoverableCallbacks h =
     (case vkGetInstanceProcAddr m_creator h ''vkDestroyInstance'' of
        None \<Rightarrow> irrecoverableError irrecoverableCallbacks
                  (VulkanError VK_ERROR_UNKNOWN ''vkw/Instance.hpp'' 121)
      | Some destroyFn \<Rightarrow> Returned (destroyFn, h))"

text \<open>
  \<^verbatim>\<open>VulkanTypeTraits<VkDevice>::getDestructor\<close> casts what
  \<^verbatim>\<open>creator.parent().vkGetInstanceProcAddr(creator, "vkDestroyDevice")\<close> returns, and
  \<^verbatim>\<open>DeviceDestructor::operator()\<close> invokes it on the handle without a test.
\<close>

definition getDestructor_VkDevice :: "Instance \<Rightarrow> PFN option" where
  "getDestructor_VkDevice creator =
     vkGetInstanceProcAddr (instance_parent creator) (instance_handle creator) ''vkDestroyDevice''"

definition DeviceDestructor_call :: "Instance \<Rightarrow> VkDevice \<Rightarrow> ('o, PFN \<times> VkDevice) outcome" where
  "DeviceDestructor_call m_creator h =
     (case getDestructor_VkDevice m_creator of
        None \<Rightarrow> Undefined
      | Some destroyFn \<Rightarrow> Returned (destroyFn, h))"

text \<open>
  \<^verbatim>\<open>DescriptorPool::freeSet\<close>, called from the destructor of a descriptor set and
  \<^verbatim>\<open>noexcept\<close>. It returns at once when the pool was created without
  \<^verbatim>\<open>VK_DESCRIPTOR_POOL_CREATE_FREE_DESCRIPTOR_SET_BIT\<close>; otherwise it calls
  \<^verbatim>\<open>vkFreeDescriptorSets\<close> of \<^verbatim>\<open>parent().core<1, 0>()\<close> under
  \<^verbatim>\<open>VK_CHECK_RESULT\<close>, inside a \<^verbatim>\<open>try\<close> whose handler passes a caught
  \<^verbatim>\<open>VulkanError\<close> to \<^verbatim>\<open>irrecoverableError\<close>, and then decrements the
  \<^verbatim>\<open>uint32_t\<close> set count. The result of the native call is an argument. An error
  of another class posted by \<^verbatim>\<open>core<1, 0>()\<close> is not caught by the handler: thrown, it
  leaves a \<^verbatim>\<open>noexcept\<close> function, which ends the process with no callback run.
\<close>

definition VK_DESCRIPTOR_POOL_CREATE_FREE_DESCRIPTOR_SET_BIT :: "32 word" where
  "VK_DESCRIPTOR_POOL_CREATE_FREE_DESCRIPTOR_SET_BIT = 1"

definition freeSet ::
  "bool \<Rightarrow> 'o callbacks \<Rightarrow> Device \<Rightarrow> 32 word \<Rightarrow> VkResult \<Rightarrow> 32 word \<Rightarrow>
   ('o, 32 word) outcome" where
  "freeSet VKW_ENABLE_EXCEPTIONS irrecoverableCallbacks parent flags vkFreeDescriptorSets m_setCount =
     (if flags AND VK_DESCRIPTOR_POOL_CREATE_FREE_DESCRIPTOR_SET_BIT = 0 then Returned m_setCount
      else case Device_core parent 1 0 of
             Inl e \<Rightarrow>
               if VKW_ENABLE_EXCEPTIONS then Terminated []
               else irrecoverableError irrecoverableCallbacks e
           | Inr c10 \<Rightarrow>
               if vkFreeDescriptorSets \<noteq> VK_SUCCESS
               then irrecoverableError irrecoverableCallbacks
                      (VulkanError vkFreeDescriptorSets ''vkw/DescriptorPool.hpp'' 76)
               else Returned (m_setCount - 1))"

section \<open>Owning wrappers\<close>

text \<open>
  \<^verbatim>\<open>Unique<T>\<close> is a \<^verbatim>\<open>std::unique_ptr<std::remove_pointer_t<T>, Deleter>\<close>: the stored
  pointer (0 is the null handle) and the deleter, which holds the creator it was built
  with. It declares no special member of its own, so construction apart its moves and its
  destructor are those of \<^verbatim>\<open>std::unique_ptr\<close>.
\<close>

record Unique =
  ptr :: nat
  m_creator :: nat

text \<open>
  The program state the wrappers live in: the wrapper objects alive, by name; the native
  destroy calls made so far, each the creator and the handle passed, in order; and the
  number of handles the native create call has returned. A handle is identified with the
  create call that returned it: the \<open>n\<close>-th successful call returns handle \<open>n\<close>.
\<close>

record world =
  objects :: "nat \<Rightarrow> Unique option"
  destroy_calls :: "(nat \<times> nat) list"
  created :: nat

definition initial_world :: world where
  "initial_world = \<lparr>objects = (\<lambda>x. None), destroy_calls = [], created = 0\<rparr>"

text \<open>
  \<^verbatim>\<open>UniqueDeleter<T>::operator()\<close>: the native destroy function of the creator, applied to
  the creator and the handle. The creator is taken to be alive, so that
  \<^verbatim>\<open>m_creator.get()\<close> returns it.
\<close>

definition UniqueDeleter_call :: "nat \<Rightarrow> nat \<Rightarrow> world \<Rightarrow> world" where
  "UniqueDeleter_call creator h w = w\<lparr>destroy_calls := destroy_calls w @ [(creator, h)]\<rparr>"

text \<open>
  The members of \<^verbatim>\<open>std::unique_ptr\<close> the moves and the destructor are made of:
  \<^verbatim>\<open>release\<close> nulls the stored pointer and returns the old one; \<^verbatim>\<open>reset(p)\<close> stores
  \<open>p\<close> and then calls the deleter on the old pointer if that is not null.
\<close>

definition release :: "nat \<Rightarrow> world \<Rightarrow> (nat \<times> world) option" where
  "release x w =
     (case objects w x of
        None \<Rightarrow> None
      | Some u \<Rightarrow> Some (ptr u, w\<lparr>objects := (objects w)(x \<mapsto> u\<lparr>ptr := 0\<rparr>)\<rparr>))"

definition reset :: "nat \<Rightarrow> nat \<Rightarrow> world \<Rightarrow> world option" where
  "reset x p w =
     (case objects w x of
        None \<Rightarrow> None
      | Some u \<Rightarrow>
          (let stored = w\<lparr>objects := (objects w)(x \<mapsto> u\<lparr>ptr := p\<rparr>)\<rparr>
           in Some (if ptr u \<noteq> 0 then UniqueDeleter_call (m_creator u) (ptr u) stored
                    else stored)))"

text \<open>
  What a program does with wrappers: construct one (\<open>ok\<close> is whether the native create
  call returned \<^verbatim>\<open>VK_SUCCESS\<close>; otherwise \<^verbatim>\<open>VK_CHECK_RESULT\<close> posts and no object
  comes to be), move-construct one from another, move-assign one to another, destroy one.
  An action on an object that is not alive, or the construction of one that is, is not an
  action of a C++ program: \<open>step\<close> is \<open>None\<close> there.
\<close>

datatype action =
    Construct nat nat bool
  | MoveConstruct nat nat
  | MoveAssign nat nat
  | Destroy nat

text \<open>
  The move constructor takes \<^verbatim>\<open>u.release()\<close> and the deleter of \<open>u\<close>; the move
  assignment is \<^verbatim>\<open>reset(u.release())\<close> followed by the assignment of the deleter; the
  destructor calls the deleter if the stored pointer is not null.
\<close>

fun step :: "world \<Rightarrow> action \<Rightarrow> world option" where
  "step w (Construct x creator ok) =
     (case objects w x of
        Some u \<Rightarrow> None
      | None \<Rightarrow>
          if ok then
            Some (w\<lparr>objects := (objects w)(x \<mapsto> \<lparr>ptr = Suc (created w), m_creator = creator\<rparr>),
                    created := Suc (created w)\<rparr>)
          else Some w)"
| "step w (MoveConstruct b a) =
     (case (objects w b, objects w a) of
        (None, Some u) \<Rightarrow>
          (case release a w of
             None \<Rightarrow> None
           | Some (p, released) \<Rightarrow>
               Some (released\<lparr>objects := (objects released)(b \<mapsto> \<lparr>ptr = p, m_creator = m_creator u\<rparr>)\<rparr>))
      | _ \<Rightarrow> None)"
| "step w (MoveAssign b a) =
     (case (objects w b, objects w a) of
        (Some v, Some u) \<Rightarrow>
          (case release a w of
             None \<Rightarrow> None
           | Some (p, released) \<Rightarrow>
               (case reset b p released of
                  None \<Rightarrow> None
                | Some stored \<Rightarrow>
                    (case objects stored b of
                       None \<Rightarrow> None
                     | Some v' \<Rightarrow>
                         Some (stored\<lparr>objects := (objects stored)(b \<mapsto> v'\<lparr>m_creator := m_creator u\<rparr>)\<rparr>))))
      | _ \<Rightarrow> None)"
| "step w (Destroy x) =
     (case objects w x of
        None \<Rightarrow> None
      | Some u \<Rightarrow>
          (let deleted = (if ptr u \<noteq> 0 then UniqueDeleter_call (m_creator u) (ptr u) w else w)
           in Some (deleted\<lparr>objects := (objects deleted)(x := None)\<rparr>)))"

fun run :: "world \<Rightarrow> action list \<Rightarrow> world option" where
  "run w [] = Some w"
| "run w (a # as) = (case step w a of None \<Rightarrow> None | Some w' \<Rightarrow> run w' as)"

definition destroyed_handles :: "world \<Rightarrow> nat list" where
  "destroyed_handles w = map snd (destroy_calls w)"

text \<open>
  The invariant of every reachable state: a handle has at most one owner, an owned handle
  has not been destroyed, and the destroy calls made are on pairwise different handles
  that are not null and were created.
\<close>

definition ownership_inv :: "world \<Rightarrow> bool" where
  "ownership_inv w \<longleftrightarrow>
     (\<forall>x u. objects w x = Some u \<longrightarrow> ptr u \<le> created w) \<and>
     (\<forall>x y u v. objects w x = Some u \<and> objects w y = Some v \<and> ptr u = ptr v \<and> ptr u \<noteq> 0
                 \<longrightarrow> x = y) \<and>
     (\<forall>x u. objects w x = Some u \<and> ptr u \<noteq> 0 \<longrightarrow> ptr u \<notin> set (destroyed_handles w)) \<and>
     distinct (destroyed_handles w) \<and>
     0 \<notin> set (destroyed_handles w) \<and>
     (\<forall>h \<in> set (destroyed_handles w). h \<le> created w)"

text \<open>A handle nobody owns and nobody has destroyed (or the null handle).\<close>

definition free_handle :: "world \<Rightarrow> nat \<Rightarrow> bool" where
  "free_handle w p \<longleftrightarrow>
     p \<le> created w \<and>
     (p \<noteq> 0 \<longrightarrow> p \<notin> set (destroyed_handles w) \<and>
                 (\<forall>x u. objects w x = Some u \<longrightarrow> ptr u \<noteq> p))"


section \<open>Requests within what is advertised\<close>

text \<open>
  A request is within what the library advertises when its version is not above
  \<^verbatim>\<open>instanceAPIVersion()\<close> and every layer and extension it names is advertised.
\<close>

definition request_within_advertised :: "SymbolTable \<Rightarrow> Library \<Rightarrow> InstanceCreateInfo \<Rightarrow> bool" where
  "request_within_advertised st lib CI \<longleftrightarrow>
     ver_le (apiVersion CI) (instanceAPIVersion lib) \<and>
     list_all (hasLayer st lib) (requestedLayers CI) \<and>
     list_all (hasInstanceExtension st lib) (requestedExtensions CI)"

text \<open>
  The chain of generated core classes that the template walk of \<open>loadSymbols\<close> follows
  from \<open>(M, m)\<close>: the next minor version if its class is defined, else the next major
  version if its class is defined, else the chain ends.
\<close>

function core_chain :: "(nat \<times> nat) list \<Rightarrow> nat \<Rightarrow> nat \<Rightarrow> (nat \<times> nat) list" where
  "core_chain cores M m =
     (M, m) #
     (if (M, m + 1) \<in> set cores then core_chain cores M (m + 1)
      else if (M + 1, 0) \<in> set cores then core_chain cores (M + 1) 0
      else [])"
  by pat_completeness auto
termination
proof (relation "measure (\<lambda>(cores, M, m). card {t \<in> set cores. pair_less (M, m) t})")
  show "wf (measure (\<lambda>(cores, M, m). card {t \<in> set cores. pair_less (M, m) t}))"
    by simp
next
  fix cores :: "(nat \<times> nat) list" and M m :: nat
  assume next_defined: "(M, m + 1) \<in> set cores"
  have "{t \<in> set cores. pair_less (M, m + 1) t} \<subseteq> {t \<in> set cores. pair_less (M, m) t}"
    by (auto simp: pair_less_def)
  moreover from next_defined have "(M, m + 1) \<in> {t \<in> set cores. pair_less (M, m) t}"
    by (simp add: pair_less_def)
  moreover have "(M, m + 1) \<notin> {t \<in> set cores. pair_less (M, m + 1) t}"
    by (simp add: pair_less_def)
  ultimately
  have "{t \<in> set cores. pair_less (M, m + 1) t} \<subset> {t \<in> set cores. pair_less (M, m) t}"
    by blast
  then have "card {t \<in> set cores. pair_less (M, m + 1) t} < card {t \<in> set cores. pair_less (M, m) t}"
    by (intro psubset_card_mono) auto
  then show "((cores, M, m + 1), (cores, M, m))
        \<in> measure (\<lambda>(cores, M, m). card {t \<in> set cores. pair_less (M, m) t})"
    by simp
next
  fix cores :: "(nat \<times> nat) list" and M m :: nat
  assume next_defined: "(M + 1, 0) \<in> set cores"
  have "{t \<in> set cores. pair_less (M + 1, 0) t} \<subseteq> {t \<in> set cores. pair_less (M, m) t}"
    by (auto simp: pair_less_def)
  moreover from next_defined have "(M + 1, 0) \<in> {t \<in> set cores. pair_less (M, m) t}"
    by (simp add: pair_less_def)
  moreover have "(M + 1, 0) \<notin> {t \<in> set cores. pair_less (M + 1, 0) t}"
    by (simp add: pair_less_def)
  ultimately
  have "{t \<in> set cores. pair_less (M + 1, 0) t} \<subset> {t \<in> set cores. pair_less (M, m) t}"
    by blast
  then have "card {t \<in> set cores. pair_less (M + 1, 0) t} < card {t \<in> set cores. pair_less (M, m) t}"
    by (intro psubset_card_mono) auto
  then show "((cores, M + 1, 0), (cores, M, m))
        \<in> measure (\<lambda>(cores, M, m). card {t \<in> set cores. pair_less (M, m) t})"
    by simp
qed

declare core_chain.simps [simp del]

text \<open>
  A class covers a version that is not above \<^verbatim>\<open>ApiVersion{major, minor,
  std::numeric_limits<unsigned>::max()}\<close>; the generated classes reach a version when a
  class of the chain from \<open>(1, 0)\<close> covers it, and \<open>reached_core\<close> is the first such
  class.
\<close>

definition covers :: "ApiVersion \<Rightarrow> nat \<times> nat \<Rightarrow> bool" where
  "covers version t \<longleftrightarrow> \<not> ver_greater version (mkApiVersion (fst t) (snd t) UINT_MAX)"

definition reached_core :: "(nat \<times> nat) list \<Rightarrow> ApiVersion \<Rightarrow> (nat \<times> nat) option" where
  "reached_core cores version = find (covers version) (core_chain cores 1 0)"


section \<open>A concrete registry, request and context\<close>

text \<open>
  A registry advertising version 1.3.0, the layer \<open>Debug\<close> and the extensions
  \<open>ExtA\<close> and \<open>ExtB\<close>; a request for version 1.2.0, no layer and \<open>ExtA\<close>; the
  instance, physical device and device built from them.
\<close>

definition scenario_tables :: SymbolTable where
  "scenario_tables =
     \<lparr>ext_entries = [''ExtA'', ''ExtB'', ''KHR_get_physical_device_properties2'',
                     ''EXT_memory_budget''],
      layer_entries = [''Debug''],
      instance_cores = [(1, 0), (1, 1), (1, 2), (1, 3)],
      device_cores = [(1, 0), (1, 1), (1, 2), (1, 3)]\<rparr>"

definition scenario_library :: Library where
  "scenario_library =
     \<lparr>m_layer_properties = [''VK_LAYER_Debug''],
      m_instance_extension_properties = [''VK_ExtA'', ''VK_ExtB''],
      vkEnumerateInstanceVersion = Some (mkApiVersion 1 3 0),
      vkCreateInstance = (\<lambda>ci. (VK_SUCCESS, 1)),
      vkGetInstanceProcAddr = (\<lambda>h name. Some 1),
      InstanceCore_ctor = (\<lambda>t. None)\<rparr>"

definition scenario_request :: InstanceCreateInfo where
  "scenario_request =
     \<lparr>requestedExtensions = [0], requestedLayers = [], apiVersion = mkApiVersion 1 2 0\<rparr>"

definition scenario_instance :: Instance where
  "scenario_instance =
     \<lparr>instance_handle = 1,
      instance_parent = scenario_library,
      m_apiVer = mkApiVersion 1 2 0,
      m_coreInstanceSymbols = (1, 2),
      m_enabledExtensions = {0},
      m_enabledLayers = {}\<rparr>"

definition scenario_native_device :: NativePhysicalDevice where
  "scenario_native_device =
     \<lparr>nd_handle = 7,
      nd_apiVersion = mkApiVersion 1 3 0,
      nd_extCount = 3,
      nd_enumerateResult = VK_SUCCESS,
      nd_extensions = [''VK_ExtB'', ''VK_NV_unknown'', ''VK_EXT_memory_budget''],
      nd_vkCreateDevice = (\<lambda>names. (VK_SUCCESS, 2)),
      DeviceCore_ctor = (\<lambda>t. None)\<rparr>"

definition scenario_physical :: PhysicalDevice where
  "scenario_physical =
     \<lparr>m_physicalDevice = scenario_native_device,
      m_supportedExtensions = [1, 3],
      m_enabledExtensions_pd = [],
      m_requestedApiVersion = mkApiVersion 1 0 0\<rparr>"

definition scenario_physical_requested :: PhysicalDevice where
  "scenario_physical_requested =
     scenario_physical\<lparr>m_enabledExtensions_pd := [1],
                        m_requestedApiVersion := mkApiVersion 1 1 0\<rparr>"

definition scenario_device :: Device where
  "scenario_device =
     \<lparr>m_ph_device = scenario_physical_requested,
      m_enabledExtensionsRaw = [''VK_ExtB''],
      m_apiVer_info = mkApiVersion 1 1 0,
      device_handle = 2,
      device_parent = scenario_instance,
      m_coreDeviceSymbols = (1, 1)\<rparr>"

text \<open>
  Variations: a library whose native create call fails; a runtime newer than the generated
  tables, and a request for its version; a library that advertises
  \<^verbatim>\<open>VK_KHR_get_physical_device_properties2\<close>, and a request that names it; a request
  naming the same extension and the same layer twice; a request naming an extension the
  library does not advertise; a library without layers and a request naming a layer; a
  runtime that refuses version 1.3.0, and a request for 1.2.4096; generated tables with a
  major step, and a runtime and a request at 2.0.0; a library whose resolver finds
  everything but \<^verbatim>\<open>vkDestroyDevice\<close>, with the instance and the device built on it; a
  library whose resolver finds nothing.
\<close>

definition failing_library :: Library where
  "failing_library =
     scenario_library\<lparr>vkCreateInstance := (\<lambda>ci. (VK_ERROR_INCOMPATIBLE_DRIVER, 0))\<rparr>"

definition newer_library :: Library where
  "newer_library = scenario_library\<lparr>vkEnumerateInstanceVersion := Some (mkApiVersion 1 4 0)\<rparr>"

definition newer_request :: InstanceCreateInfo where
  "newer_request = scenario_request\<lparr>apiVersion := mkApiVersion 1 4 0\<rparr>"

definition gpdp2_library :: Library where
  "gpdp2_library =
     scenario_library\<lparr>m_instance_extension_properties :=
       [''VK_ExtA'', ''VK_ExtB'', ''VK_KHR_get_physical_device_properties2'']\<rparr>"

definition duplicate_request :: InstanceCreateInfo where
  "duplicate_request =
     requestLayer (requestLayer
       (requestExtension (requestExtension
          (requestApiVersion_CI InstanceCreateInfo_default (mkApiVersion 1 2 0)) 0) 0) 0) 0"

definition unsupported_request :: InstanceCreateInfo where
  "unsupported_request = requestExtension scenario_request 3"

definition layerless_library :: Library where
  "layerless_library = scenario_library\<lparr>m_layer_properties := []\<rparr>"

definition layer_request :: InstanceCreateInfo where
  "layer_request = requestLayer scenario_request 0"

definition gpdp2_request :: InstanceCreateInfo where
  "gpdp2_request = requestExtension scenario_request 2"

definition strict_library :: Library where
  "strict_library =
     scenario_library\<lparr>vkCreateInstance :=
       (\<lambda>ci. if appInfo_apiVersion ci = ApiVersion_uint32 (mkApiVersion 1 3 0)
             then (VK_ERROR_INCOMPATIBLE_DRIVER, 0) else (VK_SUCCESS, 1))\<rparr>"

definition patch_request :: InstanceCreateInfo where
  "patch_request = scenario_request\<lparr>apiVersion := mkApiVersion 1 2 4096\<rparr>"

definition major_tables :: SymbolTable where
  "major_tables = scenario_tables\<lparr>instance_cores := [(1, 0), (1, 1), (2, 0)]\<rparr>"

definition major_library :: Library where
  "major_library = scenario_library\<lparr>vkEnumerateInstanceVersion := Some (mkApiVersion 2 0 0)\<rparr>"

definition major_request :: InstanceCreateInfo where
  "major_request = scenario_request\<lparr>apiVersion := mkApiVersion 2 0 0\<rparr>"

definition device_unresolved_library :: Library where
  "device_unresolved_library =
     scenario_library\<lparr>vkGetInstanceProcAddr :=
       (\<lambda>h name. if name = ''vkDestroyDevice'' then None else Some 1)\<rparr>"

definition unresolved_instance :: Instance where
  "unresolved_instance = scenario_instance\<lparr>instance_parent := device_unresolved_library\<rparr>"

definition unresolved_device :: Device where
  "unresolved_device = scenario_device\<lparr>device_parent := unresolved_instance\<rparr>"

definition unresolved_library :: Library where
  "unresolved_library = scenario_library\<lparr>vkGetInstanceProcAddr := (\<lambda>h name. None)\<rparr>"

text \<open>Wrapper states and a program that moves a wrapper around.\<close>

definition owning_world :: world where
  "owning_world =
     \<lparr>objects = (\<lambda>x. None)(0 \<mapsto> \<lparr>ptr = 1, m_creator = 7\<rparr>, 2 \<mapsto> \<lparr>ptr = 2, m_creator = 7\<rparr>),
      destroy_calls = [], created = 2\<rparr>"

definition final_world :: world where
  "final_world = \<lparr>objects = (\<lambda>x. None), destroy_calls = [(7, 2), (7, 1)], created = 2\<rparr>"

definition move_program :: "action list" where
  "move_program =
     [Construct 0 7 True, Construct 2 7 True, Construct 3 7 False, MoveConstruct 1 0,
      Destroy 0, MoveAssign 2 1, MoveAssign 2 2, Destroy 1, Destroy 2]"


section \<open>Auxiliary facts\<close>

subsection \<open>Searching\<close>

lemma find_if_le: "find_if P xs \<le> length xs"
  by (induction xs) auto

lemma find_if_holds: "find_if P xs \<noteq> length xs \<Longrightarrow> P (xs ! find_if P xs)"
  by (induction xs) (auto split: if_splits)

lemma find_if_length_iff: "find_if P xs = length xs \<longleftrightarrow> (\<forall>x\<in>set xs. \<not> P x)"
proof (induction xs)
  case Nil
  show ?case by simp
next
  case (Cons x xs)
  from find_if_le[of P xs] Cons show ?case by auto
qed

lemma find_if_nth_distinct:
  "distinct xs \<Longrightarrow> i < length xs \<Longrightarrow> find_if (\<lambda>e. xs ! i = e) xs = i"
proof (induction xs arbitrary: i)
  case Nil
  then show ?case by simp
next
  case (Cons x xs)
  show ?case
  proof (cases i)
    case 0
    then show ?thesis by simp
  next
    case (Suc j)
    with Cons.prems have j: "j < length xs" and d: "distinct xs" and nx: "x \<notin> set xs"
      by auto
    from j nx have "xs ! j \<noteq> x" by (metis nth_mem)
    with Suc Cons.IH[OF d j] show ?thesis by simp
  qed
qed

lemma distinct_ExtensionNames: "wf_tables st \<Longrightarrow> distinct (ExtensionNames st)"
  by (simp add: wf_tables_def ExtensionNames_def distinct_map inj_on_def)

lemma distinct_LayerNames: "wf_tables st \<Longrightarrow> distinct (LayerNames st)"
  by (simp add: wf_tables_def LayerNames_def distinct_map inj_on_def)

lemma ValidExtensionName_ExtensionId:
  assumes "ValidExtensionName st n"
  shows "\<exists>i. ExtensionId st n = Inr i \<and> valid_ext st i \<and> ExtensionName st i = n"
proof -
  let ?i = "find_if (\<lambda>entry. n = entry) (ExtensionNames st)"
  from assms have ne: "?i \<noteq> length (ExtensionNames st)"
    by (simp add: ValidExtensionName_def Let_def)
  with find_if_le[of "\<lambda>entry. n = entry" "ExtensionNames st"]
  have lt: "?i < length (ExtensionNames st)" by simp
  from find_if_holds[OF ne] have "ExtensionNames st ! ?i = n" by simp
  with ne lt show ?thesis
    by (simp add: ExtensionId_def Let_def valid_ext_def ExtensionName_def)
qed

subsection \<open>Evaluation of the concrete context\<close>

lemma ExtensionNames_scenario:
  "ExtensionNames scenario_tables =
     [''VK_ExtA'', ''VK_ExtB'', ''VK_KHR_get_physical_device_properties2'',
      ''VK_EXT_memory_budget'']"
  by (simp add: ExtensionNames_def scenario_tables_def)

lemma KHR_scenario: "KHR_get_physical_device_properties2 scenario_tables = 2"
  by (simp add: KHR_get_physical_device_properties2_def enumerator_def scenario_tables_def)

lemma EXT_scenario: "EXT_memory_budget scenario_tables = 3"
  by (simp add: EXT_memory_budget_def enumerator_def scenario_tables_def)

lemma LayerNames_scenario: "LayerNames scenario_tables = [''VK_LAYER_Debug'']"
  by (simp add: LayerNames_def scenario_tables_def)

lemma wf_scenario_tables: "wf_tables scenario_tables"
  by (simp add: wf_tables_def scenario_tables_def)

lemmas scenario_defs = scenario_tables_def scenario_library_def scenario_request_def
  scenario_instance_def

lemmas eval_defs = Instance_ctor_def CompiledInstanceCreateInfo_ctor_def
  InstanceDestructor_create_def loadInstanceSymbols_def loadSymbols.simps
  instanceAPIVersion_def ver_less_def ver_greater_def ver_le_def mkApiVersion_def UINT_MAX_def
  hasInstanceExtension_def hasLayer_def ExtensionName_def ExtensionNames_def
  LayerName_def LayerNames_def
  KHR_get_physical_device_properties2_def EXT_memory_budget_def enumerator_def

lemmas more_scenario_defs = failing_library_def newer_library_def newer_request_def
  strict_library_def patch_request_def major_tables_def major_library_def major_request_def
  device_unresolved_library_def unresolved_instance_def unresolved_device_def
  unresolved_library_def
  gpdp2_library_def duplicate_request_def requestLayer_def requestExtension_def
  requestApiVersion_CI_def InstanceCreateInfo_default_def

lemmas more_defs2 = unsupported_request_def layerless_library_def layer_request_def
  gpdp2_request_def

lemma Instance_scenario:
  "Instance_ctor scenario_tables scenario_library scenario_request = Inr scenario_instance"
  by (simp add: eval_defs scenario_defs)


lemma Instance_layer_scenario:
  "Instance_ctor scenario_tables scenario_library layer_request =
     Inr (scenario_instance\<lparr>m_enabledLayers := {0}\<rparr>)"
  by (simp add: eval_defs scenario_defs more_scenario_defs more_defs2)

lemmas scenario_device_defs = scenario_native_device_def scenario_physical_def
  scenario_physical_requested_def scenario_device_def

lemmas eval_device_defs = PhysicalDevice_ctor_def Instance_core_def core_def
  ValidExtensionName_def ExtensionId_def supportedApiVersion_def requestApiVersion_def
  requestedApiVersion_def extensionSupported_def enableExtension_def isExtensionEnabled_pd_def
  DeviceInfo_ctor_def DeviceDestructor_create_def loadDeviceSymbols_def Device_ctor_def
  Device_core_def isExtensionEnabled_def isLayerEnabled_def

lemma PhysicalDevice_scenario:
  "PhysicalDevice_ctor scenario_tables scenario_instance scenario_native_device =
     Inr scenario_physical"
  by (simp add: eval_defs eval_device_defs scenario_defs scenario_device_defs Let_def)

lemma enable_scenario:
  "enableExtension scenario_tables scenario_physical 1 =
     Inr (scenario_physical\<lparr>m_enabledExtensions_pd := [1]\<rparr>)"
  by (simp add: eval_defs eval_device_defs scenario_defs scenario_device_defs Let_def)

lemma request_scenario:
  "requestApiVersion (scenario_physical\<lparr>m_enabledExtensions_pd := [1]\<rparr>) (mkApiVersion 1 1 0) =
     Inr scenario_physical_requested"
  by (simp add: eval_defs eval_device_defs scenario_defs scenario_device_defs Let_def)

lemma Device_scenario:
  "Device_ctor scenario_tables scenario_instance scenario_physical_requested =
     Inr scenario_device"
  by (simp add: eval_defs eval_device_defs scenario_defs scenario_device_defs Let_def)

subsection \<open>Symbol loading and construction\<close>

lemma loadSymbols_Inr:
  "loadSymbols cores details ctor M m version = Inr t \<Longrightarrow>
     \<not> ver_greater version (mkApiVersion (fst t) (snd t) UINT_MAX) \<and> ctor t = None"
proof (induction cores details ctor M m version rule: loadSymbols.induct)
  case (1 cores details ctor M m version)
  show ?case
  proof (cases "ver_greater version (mkApiVersion M m UINT_MAX)")
    case above: True
    show ?thesis
    proof (cases "(M, m + 1) \<in> set cores")
      case True
      with above "1.prems" have "loadSymbols cores details ctor M (m + 1) version = Inr t"
        by (simp add: loadSymbols.simps[of cores details ctor M m])
      with "1.IH"(1)[OF above True] show ?thesis by simp
    next
      case no_minor: False
      show ?thesis
      proof (cases "(M + 1, 0) \<in> set cores")
        case True
        with above no_minor "1.prems"
        have "loadSymbols cores details ctor (M + 1) 0 version = Inr t"
          by (simp add: loadSymbols.simps[of cores details ctor M m])
        with "1.IH"(2)[OF above no_minor True] show ?thesis by simp
      next
        case False
        with above no_minor "1.prems" show ?thesis
          by (simp add: loadSymbols.simps[of cores details ctor M m])
      qed
    qed
  next
    case False
    with "1.prems" have "ctor (M, m) = None \<and> t = (M, m)"
      by (auto simp: loadSymbols.simps[of cores details ctor M m] split: option.splits)
    with False show ?thesis by simp
  qed
qed

lemma core_provides:
  assumes "\<not> ver_greater version (mkApiVersion (fst t) (snd t) UINT_MAX)"
    and "ver_le (mkApiVersion M m 0) version"
  shows "pair_le (M, m) t"
  using assms
  by (auto simp: ver_greater_def ver_le_def ver_less_def mkApiVersion_def pair_le_def)

lemma Instance_ctor_Inr:
  assumes "Instance_ctor st lib CI = Inr inst"
  shows "m_apiVer inst = apiVersion CI"
    and "loadInstanceSymbols st lib (apiVersion CI) = Inr (m_coreInstanceSymbols inst)"
    and "m_enabledExtensions inst = set (requestedExtensions CI)"
    and "m_enabledLayers inst = set (requestedLayers CI)"
  using assms
  by (auto simp: Instance_ctor_def split: sum.splits)

lemma core_gate:
  assumes "\<not> ver_greater apiVer (mkApiVersion (fst t) (snd t) UINT_MAX)"
  shows "(ver_le (mkApiVersion M m 0) apiVer \<longrightarrow>
            core apiVer t M m = Inr t \<and> pair_le (M, m) t) \<and>
         (ver_greater (mkApiVersion M' m' 0) apiVer \<longrightarrow>
            core apiVer t M' m' = Inl (SymbolsMissing apiVer (mkApiVersion M' m' 0)))"
  using core_provides[OF assms, of M m]
  by (auto simp: core_def Let_def ver_le_def ver_greater_def)


lemma enableExtension_requested:
  "enableExtension st pd e = Inr pd' \<Longrightarrow> m_requestedApiVersion pd' = m_requestedApiVersion pd
     \<and> m_physicalDevice pd' = m_physicalDevice pd"
  by (auto simp: enableExtension_def split: if_splits)

lemma DeviceInfo_ctor_Inr:
  assumes "DeviceInfo_ctor st parent phDevice = Inr info"
  shows "m_apiVer_info info = requestedApiVersion phDevice"
    and "requestedApiVersion (m_ph_device info) = requestedApiVersion phDevice"
  using assms
  by (auto simp: DeviceInfo_ctor_def requestedApiVersion_def
      split: if_splits sum.splits dest: enableExtension_requested)

lemma Device_ctor_Inr:
  assumes "Device_ctor st parent phDevice = Inr dev"
  shows "m_apiVer_info dev = requestedApiVersion phDevice"
    and "\<exists>ctor. loadSymbols (device_cores st)
            ''Could not load device symbols for requested api version'' ctor 1 0
            (requestedApiVersion phDevice) = Inr (m_coreDeviceSymbols dev)"
    and "device_parent dev = parent"
    and "\<exists>c10. Instance_core parent 1 0 = Inr c10"
proof -
  from assms obtain info h symbols where
    info: "DeviceInfo_ctor st parent phDevice = Inr info" and
    h: "DeviceDestructor_create parent (m_physicalDevice (m_ph_device info))
          (m_enabledExtensionsRaw info) = Inr h" and
    symbols: "loadDeviceSymbols st parent (m_physicalDevice (m_ph_device info))
          (requestedApiVersion (m_ph_device info)) = Inr symbols" and
    dev: "dev = \<lparr>m_ph_device = m_ph_device info,
                  m_enabledExtensionsRaw = m_enabledExtensionsRaw info,
                  m_apiVer_info = m_apiVer_info info,
                  device_handle = h, device_parent = parent,
                  m_coreDeviceSymbols = symbols\<rparr>"
    by (auto simp: Device_ctor_def split: sum.splits)
  from dev DeviceInfo_ctor_Inr(1)[OF info]
  show "m_apiVer_info dev = requestedApiVersion phDevice" by simp
  from symbols dev DeviceInfo_ctor_Inr(2)[OF info]
  show "\<exists>ctor. loadSymbols (device_cores st)
            ''Could not load device symbols for requested api version'' ctor 1 0
            (requestedApiVersion phDevice) = Inr (m_coreDeviceSymbols dev)"
    by (auto simp: loadDeviceSymbols_def)
  from dev show "device_parent dev = parent" by simp
  from h show "\<exists>c10. Instance_core parent 1 0 = Inr c10"
    by (auto simp: DeviceDestructor_create_def split: sum.splits)
qed

subsection \<open>Physical devices\<close>

lemma supportedExtensions_loop_total:
  "\<exists>supported. supportedExtensions_loop st names acc = Inr supported \<and>
     set supported \<subseteq> set acc \<union> {i. valid_ext st i \<and> ExtensionName st i \<in> set names}"
proof (induction names arbitrary: acc)
  case Nil
  show ?case by simp
next
  case (Cons props rest)
  show ?case
  proof (cases "ValidExtensionName st props")
    case False
    with Cons.IH[of acc] show ?thesis by auto
  next
    case True
    from ValidExtensionName_ExtensionId[OF True] obtain i where
      i: "ExtensionId st props = Inr i" "valid_ext st i" "ExtensionName st i = props"
      by blast
    from Cons.IH[of "acc @ [i]"] obtain supported where
      s: "supportedExtensions_loop st rest (acc @ [i]) = Inr supported"
         "set supported \<subseteq> set (acc @ [i]) \<union>
            {i. valid_ext st i \<and> ExtensionName st i \<in> set rest}"
      by blast
    from True i s(1) have "supportedExtensions_loop st (props # rest) acc = Inr supported"
      by simp
    moreover from s(2) i have "set supported \<subseteq>
        set acc \<union> {i. valid_ext st i \<and> ExtensionName st i \<in> set (props # rest)}"
      by auto
    ultimately show ?thesis by blast
  qed
qed

lemma PhysicalDevice_ctor_errors:
  "PhysicalDevice_ctor st inst device = Inl e \<Longrightarrow>
     e = SymbolsMissing (m_apiVer inst) (mkApiVersion 1 0 0)"
proof -
  assume a: "PhysicalDevice_ctor st inst device = Inl e"
  obtain supported where
    s: "supportedExtensions_loop st (nd_extensions device) [] = Inr supported"
    using supportedExtensions_loop_total[of st "nd_extensions device" "[]"] by blast
  show ?thesis
  proof (cases "ver_less (m_apiVer inst) (mkApiVersion 1 0 0)")
    case True
    with a show ?thesis
      by (simp add: PhysicalDevice_ctor_def Instance_core_def core_def Let_def)
  next
    case False
    then have "\<not> (ver_le (mkApiVersion 1 1 0) (m_apiVer inst) \<and>
                 ver_less (m_apiVer inst) (mkApiVersion 1 1 0))"
      by (simp add: ver_le_def)
    with False a s show ?thesis
      by (auto simp: PhysicalDevice_ctor_def Instance_core_def core_def Let_def
          split: if_splits)
  qed
qed

lemma PhysicalDevice_ctor_supported:
  assumes "PhysicalDevice_ctor st inst device = Inr pd"
  shows "set (m_supportedExtensions pd) \<subseteq>
           {i. valid_ext st i \<and> ExtensionName st i \<in> set (nd_extensions device)}"
proof -
  obtain supported where
    s: "supportedExtensions_loop st (nd_extensions device) [] = Inr supported"
       "set supported \<subseteq> {i. valid_ext st i \<and> ExtensionName st i \<in> set (nd_extensions device)}"
    using supportedExtensions_loop_total[of st "nd_extensions device" "[]"] by auto
  from assms s(1) have "m_supportedExtensions pd = supported \<or> m_supportedExtensions pd = []"
    by (auto simp: PhysicalDevice_ctor_def Let_def split: sum.splits if_splits)
  with s(2) show ?thesis by auto
qed

lemma extensionSupported_iff: "extensionSupported pd e \<longleftrightarrow> e \<in> set (m_supportedExtensions pd)"
  by (auto simp: extensionSupported_def find_if_length_iff)

lemma enableExtension_Inr:
  assumes "enableExtension st pd e = Inr pd'"
  shows "extensionSupported pd e"
    and "m_supportedExtensions pd' = m_supportedExtensions pd"
    and "set (m_enabledExtensions_pd pd') = insert e (set (m_enabledExtensions_pd pd))"
  using assms
  by (auto simp: enableExtension_def find_if_length_iff split: if_splits)

lemma core_chain_nonempty: "core_chain cores M m \<noteq> []"
  by (subst core_chain.simps) simp

lemma loadSymbols_chain:
  "loadSymbols cores details ctor M m version =
     (case find (covers version) (core_chain cores M m) of
        Some t \<Rightarrow> (case ctor t of Some e \<Rightarrow> Inl e | None \<Rightarrow> Inr t)
      | None \<Rightarrow>
          Inl (ApiVersionUnsupported details
                 (mkApiVersion (fst (last (core_chain cores M m)))
                    (snd (last (core_chain cores M m))) 0)
                 version SEM_VERSION))"
proof (induction cores details ctor M m version rule: loadSymbols.induct)
  case (1 cores details ctor M m version)
  show ?case
  proof (cases "ver_greater version (mkApiVersion M m UINT_MAX)")
    case False
    then have c: "covers version (M, m)" by (simp add: covers_def)
    from False have load: "loadSymbols cores details ctor M m version =
        (case ctor (M, m) of Some e \<Rightarrow> Inl e | None \<Rightarrow> Inr (M, m))"
      by (subst loadSymbols.simps) simp
    have "\<exists>rest. core_chain cores M m = (M, m) # rest"
      by (subst core_chain.simps) simp
    then obtain rest where chain: "core_chain cores M m = (M, m) # rest" ..
    show ?thesis by (simp add: load chain c)
  next
    case above: True
    then have c: "\<not> covers version (M, m)" by (simp add: covers_def)
    show ?thesis
    proof (cases "(M, m + 1) \<in> set cores")
      case True
      with above have load: "loadSymbols cores details ctor M m version =
          loadSymbols cores details ctor M (m + 1) version"
        by (subst loadSymbols.simps) simp
      from True have chain: "core_chain cores M m = (M, m) # core_chain cores M (m + 1)"
        by (subst core_chain.simps) simp
      have l: "last ((M, m) # core_chain cores M (m + 1)) = last (core_chain cores M (m + 1))"
        using core_chain_nonempty[of cores M "m + 1"] by simp
      show ?thesis
        unfolding load chain l "1.IH"(1)[OF above True]
        by (simp add: c)
    next
      case no_minor: False
      show ?thesis
      proof (cases "(M + 1, 0) \<in> set cores")
        case True
        with above no_minor have load: "loadSymbols cores details ctor M m version =
            loadSymbols cores details ctor (M + 1) 0 version"
          by (subst loadSymbols.simps) simp
        from True no_minor
        have chain: "core_chain cores M m = (M, m) # core_chain cores (M + 1) 0"
          by (subst core_chain.simps) simp
        have l: "last ((M, m) # core_chain cores (M + 1) 0) = last (core_chain cores (M + 1) 0)"
          using core_chain_nonempty[of cores "M + 1" 0] by simp
        show ?thesis
          unfolding load chain l "1.IH"(2)[OF above no_minor True]
          by (simp add: c)
      next
        case False
        with above no_minor have load: "loadSymbols cores details ctor M m version =
            Inl (ApiVersionUnsupported details (mkApiVersion M m 0) version SEM_VERSION)"
          by (subst loadSymbols.simps) simp
        from False no_minor have chain: "core_chain cores M m = [(M, m)]"
          by (subst core_chain.simps) simp
        show ?thesis by (simp add: load chain c)
      qed
    qed
  qed
qed

lemma find_None_list_all: "find (\<lambda>i. \<not> P i) xs = None \<longleftrightarrow> list_all P xs"
  by (induction xs) auto

lemma compiled_within_advertised:
  assumes "request_within_advertised st lib CI"
  shows "\<exists>compiled. CompiledInstanceCreateInfo_ctor st lib CI = Inr compiled \<and>
           appInfo_apiVersion compiled = ApiVersion_uint32 (apiVersion CI)"
proof -
  from assms have v: "\<not> ver_less (instanceAPIVersion lib) (apiVersion CI)"
    and l: "find (\<lambda>i. \<not> hasLayer st lib i) (requestedLayers CI) = None"
    and e: "find (\<lambda>i. \<not> hasInstanceExtension st lib i) (requestedExtensions CI) = None"
    by (simp_all add: request_within_advertised_def ver_le_def find_None_list_all)
  show ?thesis
    by (simp add: CompiledInstanceCreateInfo_ctor_def v l e Let_def)
qed

lemma loadInstanceSymbols_chain:
  "loadInstanceSymbols st lib version =
     (case reached_core (instance_cores st) version of
        Some t \<Rightarrow> (case InstanceCore_ctor lib t of Some e \<Rightarrow> Inl e | None \<Rightarrow> Inr t)
      | None \<Rightarrow>
          Inl (ApiVersionUnsupported
                 ''Could not load instance symbols for requested api version''
                 (mkApiVersion (fst (last (core_chain (instance_cores st) 1 0)))
                    (snd (last (core_chain (instance_cores st) 1 0))) 0)
                 version SEM_VERSION))"
  unfolding loadInstanceSymbols_def reached_core_def by (rule loadSymbols_chain)

lemma pack_patch:
  "ApiVersion_uint32 (apiVersion patch_request) = ApiVersion_uint32 (mkApiVersion 1 3 0)"
  by (simp add: ApiVersion_uint32_def VK_MAKE_API_VERSION_def mkApiVersion_def
      patch_request_def)

lemma within_scenario: "request_within_advertised scenario_tables scenario_library scenario_request"
  by (simp add: request_within_advertised_def eval_defs scenario_defs)

lemma compiled_scenario:
  "CompiledInstanceCreateInfo_ctor scenario_tables scenario_library scenario_request =
     Inr \<lparr>appInfo_apiVersion = ApiVersion_uint32 (mkApiVersion 1 2 0),
          reqExtensionsNames = [''VK_ExtA''], reqLayerNames = []\<rparr>"
  by (simp add: eval_defs scenario_defs)

lemma unsupported_first:
  assumes "ver_le (apiVersion CI) (instanceAPIVersion lib)"
  shows "(find (\<lambda>i. \<not> hasLayer st lib i) (requestedLayers CI) = Some l \<longrightarrow>
            Instance_ctor st lib CI = Inl (LayerUnsupported l (LayerName st l))) \<and>
         (find (\<lambda>i. \<not> hasLayer st lib i) (requestedLayers CI) = None \<and>
          find (\<lambda>i. \<not> hasInstanceExtension st lib i) (requestedExtensions CI) = Some e \<longrightarrow>
            Instance_ctor st lib CI = Inl (ExtensionUnsupported e (ExtensionName st e)))"
  using assms
  by (simp add: ver_le_def Instance_ctor_def CompiledInstanceCreateInfo_ctor_def)

lemma find_Some_set: "find P xs = Some x \<Longrightarrow> x \<in> set xs \<and> P x"
  by (induction xs) (auto split: if_splits)

lemma find_None_set: "find P xs = None \<longleftrightarrow> (\<forall>x\<in>set xs. \<not> P x)"
  by (induction xs) auto

subsection \<open>The ownership invariant\<close>

lemma ownership_invD:
  assumes "ownership_inv w"
  shows "\<And>y u. objects w y = Some u \<Longrightarrow> ptr u \<le> created w"
    and "\<And>y z u v. objects w y = Some u \<Longrightarrow> objects w z = Some v \<Longrightarrow> ptr u = ptr v \<Longrightarrow>
           ptr u \<noteq> 0 \<Longrightarrow> y = z"
    and "\<And>y u. objects w y = Some u \<Longrightarrow> ptr u \<noteq> 0 \<Longrightarrow> ptr u \<notin> set (destroyed_handles w)"
    and "distinct (destroyed_handles w)"
    and "0 \<notin> set (destroyed_handles w)"
    and "\<And>h. h \<in> set (destroyed_handles w) \<Longrightarrow> h \<le> created w"
  using assms unfolding ownership_inv_def by blast+

lemma inv_initial: "ownership_inv initial_world"
  by (simp add: ownership_inv_def initial_world_def destroyed_handles_def)

lemma inv_Construct:
  assumes "ownership_inv w" and "step w (Construct x creator ok) = Some w'"
  shows "ownership_inv w'"
proof (cases ok)
  case False
  with assms show ?thesis by (auto split: option.splits)
next
  case True
  with assms(2) have free: "objects w x = None"
    and w': "w' = w\<lparr>objects := (objects w)(x \<mapsto> \<lparr>ptr = Suc (created w), m_creator = creator\<rparr>),
                    created := Suc (created w)\<rparr>"
    by (auto split: option.splits)
  note i = ownership_invD[OF assms(1)]
  have d: "destroyed_handles w' = destroyed_handles w"
    by (simp add: w' destroyed_handles_def)
  show ?thesis
    unfolding ownership_inv_def d
  proof (intro conjI allI impI ballI)
    fix y u assume "objects w' y = Some u"
    then show "ptr u \<le> created w'"
      using i(1)[of y u] by (auto simp: w' split: if_splits intro: le_SucI)
  next
    fix y z u v
    assume "objects w' y = Some u \<and> objects w' z = Some v \<and> ptr u = ptr v \<and> ptr u \<noteq> 0"
    then show "y = z"
      using i(1)[of y u] i(1)[of z v] i(2)[of y u z v] by (auto simp: w' split: if_splits)
  next
    fix y u assume "objects w' y = Some u \<and> ptr u \<noteq> 0"
    then show "ptr u \<notin> set (destroyed_handles w)"
      using i(3)[of y u] i(6)[of "Suc (created w)"] by (auto simp: w' split: if_splits)
  next
    show "distinct (destroyed_handles w)" by (rule i(4))
    show "0 \<notin> set (destroyed_handles w)" by (rule i(5))
  next
    fix h assume "h \<in> set (destroyed_handles w)"
    then show "h \<le> created w'" using i(6)[of h] by (simp add: w')
  qed
qed

lemma release_inv:
  assumes "ownership_inv w" and "release x w = Some (p, w1)"
  shows "ownership_inv w1" and "free_handle w1 p" and "destroy_calls w1 = destroy_calls w"
    and "created w1 = created w"
proof -
  from assms(2) obtain u where u: "objects w x = Some u" and p: "p = ptr u"
    and w1: "w1 = w\<lparr>objects := (objects w)(x \<mapsto> u\<lparr>ptr := 0\<rparr>)\<rparr>"
    by (auto simp: release_def split: option.splits)
  note i = ownership_invD[OF assms(1)]
  have d: "destroyed_handles w1 = destroyed_handles w"
    by (simp add: w1 destroyed_handles_def)
  show "destroy_calls w1 = destroy_calls w" and "created w1 = created w" by (simp_all add: w1)
  show "ownership_inv w1"
    unfolding ownership_inv_def d
  proof (intro conjI allI impI ballI)
    fix y t assume "objects w1 y = Some t"
    then show "ptr t \<le> created w1"
      using i(1)[of y t] by (auto simp: w1 split: if_splits)
  next
    fix y z t v
    assume "objects w1 y = Some t \<and> objects w1 z = Some v \<and> ptr t = ptr v \<and> ptr t \<noteq> 0"
    then show "y = z"
      using i(2)[of y t z v] by (auto simp: w1 split: if_splits)
  next
    fix y t assume "objects w1 y = Some t \<and> ptr t \<noteq> 0"
    then show "ptr t \<notin> set (destroyed_handles w)"
      using i(3)[of y t] by (auto simp: w1 split: if_splits)
  next
    show "distinct (destroyed_handles w)" by (rule i(4))
    show "0 \<notin> set (destroyed_handles w)" by (rule i(5))
  next
    fix h assume "h \<in> set (destroyed_handles w)"
    then show "h \<le> created w1" using i(6)[of h] by (simp add: w1)
  qed
  show "free_handle w1 p"
    unfolding free_handle_def d
  proof (intro conjI impI allI)
    show "p \<le> created w1" using i(1)[OF u] by (simp add: p w1)
  next
    assume "p \<noteq> 0"
    then show "p \<notin> set (destroyed_handles w)" using i(3)[OF u] by (simp add: p)
  next
    fix y t
    assume nz: "p \<noteq> 0" and t: "objects w1 y = Some t"
    show "ptr t \<noteq> p"
    proof (cases "y = x")
      case True
      with t nz show ?thesis by (auto simp: w1)
    next
      case False
      with t have "objects w y = Some t" by (simp add: w1)
      with i(2)[of y t x u] u False nz show ?thesis by (auto simp: p)
    qed
  qed
qed


lemma reset_inv:
  assumes "ownership_inv w" and "free_handle w p" and "reset x p w = Some w2"
  shows "ownership_inv w2" and "created w2 = created w"
proof -
  from assms(3) obtain u where u: "objects w x = Some u"
    and w2: "w2 = (if ptr u \<noteq> 0
                   then UniqueDeleter_call (m_creator u) (ptr u)
                          (w\<lparr>objects := (objects w)(x \<mapsto> u\<lparr>ptr := p\<rparr>)\<rparr>)
                   else w\<lparr>objects := (objects w)(x \<mapsto> u\<lparr>ptr := p\<rparr>)\<rparr>)"
    by (auto simp: reset_def Let_def split: option.splits)
  note i = ownership_invD[OF assms(1)]
  from assms(2) have f1: "p \<le> created w"
    and f2: "p \<noteq> 0 \<Longrightarrow> p \<notin> set (destroyed_handles w)"
    and f3: "\<And>y t. p \<noteq> 0 \<Longrightarrow> objects w y = Some t \<Longrightarrow> ptr t \<noteq> p"
    unfolding free_handle_def by blast+
  have obj: "objects w2 = (objects w)(x \<mapsto> u\<lparr>ptr := p\<rparr>)"
    by (simp add: w2 UniqueDeleter_call_def)
  have d: "destroyed_handles w2 =
             (if ptr u \<noteq> 0 then destroyed_handles w @ [ptr u] else destroyed_handles w)"
    by (simp add: w2 UniqueDeleter_call_def destroyed_handles_def)
  show c: "created w2 = created w"
    by (simp add: w2 UniqueDeleter_call_def)
  have old_new: "ptr u \<noteq> 0 \<Longrightarrow> ptr u \<notin> set (destroyed_handles w)"
    using i(3)[OF u] by simp
  show "ownership_inv w2"
    unfolding ownership_inv_def
  proof (intro conjI allI impI ballI)
    fix y t assume "objects w2 y = Some t"
    then show "ptr t \<le> created w2"
      using i(1)[of y t] f1 by (auto simp: obj c split: if_splits)
  next
    fix y z t v
    assume a: "objects w2 y = Some t \<and> objects w2 z = Some v \<and> ptr t = ptr v \<and> ptr t \<noteq> 0"
    show "y = z"
    proof (cases "y = x"; cases "z = x")
      assume "y = x" "z = x"
      then show ?thesis by simp
    next
      assume yx: "y = x" and zx: "z \<noteq> x"
      with a have "ptr t = p" "objects w z = Some v" by (auto simp: obj)
      with a f3[of z v] show ?thesis by auto
    next
      assume yx: "y \<noteq> x" and zx: "z = x"
      with a have "ptr v = p" "objects w y = Some t" by (auto simp: obj)
      with a f3[of y t] show ?thesis by auto
    next
      assume "y \<noteq> x" "z \<noteq> x"
      with a have "objects w y = Some t" "objects w z = Some v" by (auto simp: obj)
      with a i(2)[of y t z v] show ?thesis by auto
    qed
  next
    fix y t
    assume a: "objects w2 y = Some t \<and> ptr t \<noteq> 0"
    show "ptr t \<notin> set (destroyed_handles w2)"
    proof (cases "y = x")
      case True
      with a have pt: "ptr t = p" "p \<noteq> 0" by (auto simp: obj)
      with f2 f3[OF pt(2) u] show ?thesis by (auto simp: d)
    next
      case False
      with a have t: "objects w y = Some t" by (auto simp: obj)
      with a i(3)[of y t] have "ptr t \<notin> set (destroyed_handles w)" by simp
      moreover from t a False u i(2)[of y t x u] have "ptr t \<noteq> ptr u" by auto
      ultimately show ?thesis by (auto simp: d)
    qed
  next
    show "distinct (destroyed_handles w2)"
      using i(4) old_new by (auto simp: d)
    show "0 \<notin> set (destroyed_handles w2)"
      using i(5) by (auto simp: d)
  next
    fix h assume "h \<in> set (destroyed_handles w2)"
    then show "h \<le> created w2"
      using i(6)[of h] i(1)[OF u] by (auto simp: d c split: if_splits)
  qed
qed

lemma store_fresh_inv:
  assumes "ownership_inv w" and "free_handle w p" and "objects w b = None"
  shows "ownership_inv (w\<lparr>objects := (objects w)(b \<mapsto> \<lparr>ptr = p, m_creator = c\<rparr>)\<rparr>)"
proof -
  let ?w = "w\<lparr>objects := (objects w)(b \<mapsto> \<lparr>ptr = p, m_creator = c\<rparr>)\<rparr>"
  note i = ownership_invD[OF assms(1)]
  from assms(2) have f1: "p \<le> created w"
    and f2: "p \<noteq> 0 \<Longrightarrow> p \<notin> set (destroyed_handles w)"
    and f3: "\<And>y t. p \<noteq> 0 \<Longrightarrow> objects w y = Some t \<Longrightarrow> ptr t \<noteq> p"
    unfolding free_handle_def by blast+
  have d: "destroyed_handles ?w = destroyed_handles w"
    by (simp add: destroyed_handles_def)
  show ?thesis
    unfolding ownership_inv_def d
  proof (intro conjI allI impI ballI)
    fix y t assume "objects ?w y = Some t"
    then show "ptr t \<le> created ?w"
      using i(1)[of y t] f1 by (auto split: if_splits)
  next
    fix y z t v
    assume a: "objects ?w y = Some t \<and> objects ?w z = Some v \<and> ptr t = ptr v \<and> ptr t \<noteq> 0"
    show "y = z"
    proof (cases "y = b"; cases "z = b")
      assume "y = b" "z = b"
      then show ?thesis by simp
    next
      assume "y = b" and "z \<noteq> b"
      with a have "ptr t = p" "objects w z = Some v" by auto
      with a f3[of z v] show ?thesis by auto
    next
      assume "y \<noteq> b" and "z = b"
      with a have "ptr v = p" "objects w y = Some t" by auto
      with a f3[of y t] show ?thesis by auto
    next
      assume "y \<noteq> b" "z \<noteq> b"
      with a have "objects w y = Some t" "objects w z = Some v" by auto
      with a i(2)[of y t z v] show ?thesis by auto
    qed
  next
    fix y t
    assume a: "objects ?w y = Some t \<and> ptr t \<noteq> 0"
    show "ptr t \<notin> set (destroyed_handles w)"
    proof (cases "y = b")
      case True
      with a have "ptr t = p" "p \<noteq> 0" by auto
      with f2 show ?thesis by simp
    next
      case False
      with a i(3)[of y t] show ?thesis by auto
    qed
  next
    show "distinct (destroyed_handles w)" by (rule i(4))
    show "0 \<notin> set (destroyed_handles w)" by (rule i(5))
  next
    fix h assume "h \<in> set (destroyed_handles w)"
    then show "h \<le> created ?w" using i(6)[of h] by simp
  qed
qed

lemma inv_same_pointers:
  assumes "ownership_inv w"
    and "\<And>x. map_option ptr (objects w' x) = map_option ptr (objects w x)"
    and "destroy_calls w' = destroy_calls w" and "created w' = created w"
  shows "ownership_inv w'"
proof -
  note i = ownership_invD[OF assms(1)]
  have d: "destroyed_handles w' = destroyed_handles w"
    by (simp add: destroyed_handles_def assms(3))
  have orig: "\<exists>t'. objects w y = Some t' \<and> ptr t' = ptr t" if "objects w' y = Some t" for y t
    using assms(2)[of y] that by (cases "objects w y") auto
  show ?thesis
    unfolding ownership_inv_def d assms(4)
  proof (intro conjI allI impI ballI)
    fix y t assume "objects w' y = Some t"
    with orig[of y t] obtain t' where "objects w y = Some t'" "ptr t' = ptr t" by auto
    with i(1)[of y t'] show "ptr t \<le> created w" by simp
  next
    fix y z t v
    assume a: "objects w' y = Some t \<and> objects w' z = Some v \<and> ptr t = ptr v \<and> ptr t \<noteq> 0"
    with orig[of y t] orig[of z v] obtain t' v' where
      "objects w y = Some t'" "ptr t' = ptr t" "objects w z = Some v'" "ptr v' = ptr v"
      by auto
    with a i(2)[of y t' z v'] show "y = z" by auto
  next
    fix y t
    assume a: "objects w' y = Some t \<and> ptr t \<noteq> 0"
    with orig[of y t] obtain t' where "objects w y = Some t'" "ptr t' = ptr t" by auto
    with a i(3)[of y t'] show "ptr t \<notin> set (destroyed_handles w)" by auto
  next
    show "distinct (destroyed_handles w)" by (rule i(4))
    show "0 \<notin> set (destroyed_handles w)" by (rule i(5))
  next
    fix h assume "h \<in> set (destroyed_handles w)"
    then show "h \<le> created w" by (rule i(6))
  qed
qed

lemma inv_remove:
  assumes "ownership_inv w"
  shows "ownership_inv (w\<lparr>objects := (objects w)(x := None)\<rparr>)"
proof -
  let ?w = "w\<lparr>objects := (objects w)(x := None)\<rparr>"
  note i = ownership_invD[OF assms(1)]
  have d: "destroyed_handles ?w = destroyed_handles w"
    by (simp add: destroyed_handles_def)
  show ?thesis
    unfolding ownership_inv_def d
  proof (intro conjI allI impI ballI)
    fix y t assume "objects ?w y = Some t"
    then show "ptr t \<le> created ?w" using i(1)[of y t] by (auto split: if_splits)
  next
    fix y z t v
    assume "objects ?w y = Some t \<and> objects ?w z = Some v \<and> ptr t = ptr v \<and> ptr t \<noteq> 0"
    then show "y = z" using i(2)[of y t z v] by (auto split: if_splits)
  next
    fix y t
    assume "objects ?w y = Some t \<and> ptr t \<noteq> 0"
    then show "ptr t \<notin> set (destroyed_handles w)" using i(3)[of y t] by (auto split: if_splits)
  next
    show "distinct (destroyed_handles w)" by (rule i(4))
    show "0 \<notin> set (destroyed_handles w)" by (rule i(5))
  next
    fix h assume "h \<in> set (destroyed_handles w)"
    then show "h \<le> created ?w" using i(6)[of h] by simp
  qed
qed


lemma free_null: "free_handle w 0"
  by (simp add: free_handle_def)

lemma step_Destroy_reset:
  assumes "step w (Destroy x) = Some w'"
  shows "\<exists>w2. reset x 0 w = Some w2 \<and> w' = w2\<lparr>objects := (objects w2)(x := None)\<rparr>"
  using assms
  by (auto simp: reset_def UniqueDeleter_call_def Let_def split: option.splits)

lemma step_inv:
  assumes "ownership_inv w" and "step w act = Some w'"
  shows "ownership_inv w'"
proof (cases act)
  case (Construct x creator ok)
  with assms show ?thesis by (auto intro: inv_Construct)
next
  case (MoveConstruct b a)
  with assms(2) obtain u p w1 where
    b: "objects w b = None" and a: "objects w a = Some u" and
    r: "release a w = Some (p, w1)" and
    w': "w' = w1\<lparr>objects := (objects w1)(b \<mapsto> \<lparr>ptr = p, m_creator = m_creator u\<rparr>)\<rparr>"
    by (auto split: option.splits prod.splits)
  from r b a have "objects w1 b = None"
    by (auto simp: release_def split: option.splits)
  with release_inv(1,2)[OF assms(1) r] show ?thesis
    unfolding w' by (intro store_fresh_inv)
next
  case (MoveAssign b a)
  with assms(2) obtain u p w1 w2 v' where
    a: "objects w a = Some u" and
    r: "release a w = Some (p, w1)" and
    s: "reset b p w1 = Some w2" and
    v': "objects w2 b = Some v'" and
    w': "w' = w2\<lparr>objects := (objects w2)(b \<mapsto> v'\<lparr>m_creator := m_creator u\<rparr>)\<rparr>"
    by (auto split: option.splits prod.splits)
  from reset_inv(1)[OF release_inv(1,2)[OF assms(1) r] s] have "ownership_inv w2" .
  then show ?thesis
  proof (rule inv_same_pointers)
    fix x show "map_option ptr (objects w' x) = map_option ptr (objects w2 x)"
      using v' by (simp add: w')
  qed (simp_all add: w')
next
  case (Destroy x)
  with assms(2) step_Destroy_reset[of w x w'] obtain w2 where
    s: "reset x 0 w = Some w2" and w': "w' = w2\<lparr>objects := (objects w2)(x := None)\<rparr>"
    by auto
  from reset_inv(1)[OF assms(1) free_null s] show ?thesis
    unfolding w' by (rule inv_remove)
qed

lemma run_inv:
  "ownership_inv w \<Longrightarrow> run w acts = Some w' \<Longrightarrow> ownership_inv w'"
proof (induction acts arbitrary: w)
  case Nil
  then show ?case by simp
next
  case (Cons act acts)
  from Cons.prems(2) obtain w1 where
    s: "step w act = Some w1" and r: "run w1 acts = Some w'"
    by (auto split: option.splits)
  from Cons.IH[OF step_inv[OF Cons.prems(1) s] r] show ?case .
qed

lemma run_move_program: "run initial_world move_program = Some final_world"
  by (simp add: move_program_def initial_world_def final_world_def release_def reset_def
      UniqueDeleter_call_def Let_def fun_eq_iff)

lemma run_owning: "run initial_world [Construct 0 7 True, Construct 2 7 True] = Some owning_world"
  by (simp add: initial_world_def owning_world_def fun_eq_iff)


section \<open>Versioned table queries\<close>

text \<open>
  Claim C1. For an \<^verbatim>\<open>Instance\<close> or a \<^verbatim>\<open>Device\<close> that was constructed with version
  \<open>v\<close>, the recorded version is \<open>v\<close>; \<^verbatim>\<open>core<M, m>()\<close> returns the loaded table
  object for every \<open>(M, m, 0) \<le> v\<close>, and the class of that object is \<open>(M, m)\<close> or a later
  one of the chain; for every \<open>(M, m, 0) > v\<close> the call posts \<^verbatim>\<open>SymbolsMissing\<close> built
  from the recorded and the requested version. The context exists in both cases: the
  failure belongs to the query, not to the construction.
\<close>

theorem core_version_gate:
  "(Instance_ctor st lib CI = Inr inst \<longrightarrow>
      m_apiVer inst = apiVersion CI \<and>
      (ver_le (mkApiVersion M m 0) (apiVersion CI) \<longrightarrow>
         Instance_core inst M m = Inr (m_coreInstanceSymbols inst) \<and>
         pair_le (M, m) (m_coreInstanceSymbols inst)) \<and>
      (ver_greater (mkApiVersion M' m' 0) (apiVersion CI) \<longrightarrow>
         Instance_core inst M' m' =
           Inl (SymbolsMissing (apiVersion CI) (mkApiVersion M' m' 0)))) \<and>
   (Device_ctor st parent phDevice = Inr dev \<longrightarrow>
      m_apiVer_info dev = requestedApiVersion phDevice \<and>
      (ver_le (mkApiVersion N n 0) (requestedApiVersion phDevice) \<longrightarrow>
         Device_core dev N n = Inr (m_coreDeviceSymbols dev) \<and>
         pair_le (N, n) (m_coreDeviceSymbols dev)) \<and>
      (ver_greater (mkApiVersion N' n' 0) (requestedApiVersion phDevice) \<longrightarrow>
         Device_core dev N' n' =
           Inl (SymbolsMissing (requestedApiVersion phDevice) (mkApiVersion N' n' 0))))"
proof (intro conjI impI)
  assume ok: "Instance_ctor st lib CI = Inr inst"
  note facts = Instance_ctor_Inr[OF ok]
  from facts(2) have top: "\<not> ver_greater (apiVersion CI)
      (mkApiVersion (fst (m_coreInstanceSymbols inst)) (snd (m_coreInstanceSymbols inst)) UINT_MAX)"
    by (auto simp: loadInstanceSymbols_def dest: loadSymbols_Inr)
  show "m_apiVer inst = apiVersion CI" by (rule facts(1))
  {
    assume "ver_le (mkApiVersion M m 0) (apiVersion CI)"
    with core_gate[OF top, of M m] facts(1)
    show "Instance_core inst M m = Inr (m_coreInstanceSymbols inst)"
      and "pair_le (M, m) (m_coreInstanceSymbols inst)"
      by (simp_all add: Instance_core_def)
  }
  {
    assume "ver_greater (mkApiVersion M' m' 0) (apiVersion CI)"
    with core_gate[OF top, of _ _ M' m'] facts(1)
    show "Instance_core inst M' m' =
           Inl (SymbolsMissing (apiVersion CI) (mkApiVersion M' m' 0))"
      by (simp add: Instance_core_def)
  }
next
  assume ok: "Device_ctor st parent phDevice = Inr dev"
  note facts = Device_ctor_Inr[OF ok]
  from facts(2) have top: "\<not> ver_greater (requestedApiVersion phDevice)
      (mkApiVersion (fst (m_coreDeviceSymbols dev)) (snd (m_coreDeviceSymbols dev)) UINT_MAX)"
    by (auto dest: loadSymbols_Inr)
  show "m_apiVer_info dev = requestedApiVersion phDevice" by (rule facts(1))
  {
    assume "ver_le (mkApiVersion N n 0) (requestedApiVersion phDevice)"
    with core_gate[OF top, of N n] facts(1)
    show "Device_core dev N n = Inr (m_coreDeviceSymbols dev)"
      and "pair_le (N, n) (m_coreDeviceSymbols dev)"
      by (simp_all add: Device_core_def)
  }
  {
    assume "ver_greater (mkApiVersion N' n' 0) (requestedApiVersion phDevice)"
    with core_gate[OF top, of _ _ N' n'] facts(1)
    show "Device_core dev N' n' =
           Inl (SymbolsMissing (requestedApiVersion phDevice) (mkApiVersion N' n' 0))"
      by (simp add: Device_core_def)
  }
qed

theorem core_version_gate_witness:
  "Instance_ctor scenario_tables scenario_library scenario_request = Inr scenario_instance \<and>
   ver_le (mkApiVersion 1 1 0) (apiVersion scenario_request) \<and>
   Instance_core scenario_instance 1 1 = Inr (1, 2) \<and>
   ver_greater (mkApiVersion 1 3 0) (apiVersion scenario_request) \<and>
   Instance_core scenario_instance 1 3 =
     Inl (SymbolsMissing (mkApiVersion 1 2 0) (mkApiVersion 1 3 0)) \<and>
   Device_ctor scenario_tables scenario_instance scenario_physical_requested =
     Inr scenario_device \<and>
   ver_le (mkApiVersion 1 0 0) (requestedApiVersion scenario_physical_requested) \<and>
   Device_core scenario_device 1 0 = Inr (1, 1) \<and>
   ver_greater (mkApiVersion 1 2 0) (requestedApiVersion scenario_physical_requested) \<and>
   Device_core scenario_device 1 2 =
     Inl (SymbolsMissing (mkApiVersion 1 1 0) (mkApiVersion 1 2 0))"
proof -
  have v: "ver_le (mkApiVersion 1 1 0) (apiVersion scenario_request)"
    "ver_greater (mkApiVersion 1 3 0) (apiVersion scenario_request)"
    "ver_le (mkApiVersion 1 0 0) (requestedApiVersion scenario_physical_requested)"
    "ver_greater (mkApiVersion 1 2 0) (requestedApiVersion scenario_physical_requested)"
    by (simp_all add: ver_le_def ver_greater_def ver_less_def mkApiVersion_def
        scenario_request_def requestedApiVersion_def scenario_physical_requested_def)
  have s: "m_coreInstanceSymbols scenario_instance = (1, 2)"
    "m_coreDeviceSymbols scenario_device = (1, 1)"
    "apiVersion scenario_request = mkApiVersion 1 2 0"
    "requestedApiVersion scenario_physical_requested = mkApiVersion 1 1 0"
    by (simp_all add: scenario_instance_def scenario_device_def scenario_request_def
        requestedApiVersion_def scenario_physical_requested_def)
  from core_version_gate[of scenario_tables scenario_library scenario_request
      scenario_instance 1 1 1 3 scenario_instance scenario_physical_requested
      scenario_device 1 0 1 2]
    Instance_scenario Device_scenario v s
  show ?thesis by simp
qed


section \<open>Recording what was enabled\<close>

text \<open>
  Claim C2. Every extension enabled at the native create call, the automatically enabled
  ones included, is afterwards reported as enabled. Evaluated for a library that
  advertises \<^verbatim>\<open>VK_KHR_get_physical_device_properties2\<close> and a request that names only
  \<open>ExtA\<close>: the name array handed to \<^verbatim>\<open>vkCreateInstance\<close> holds both names, the
  instance records only \<open>ExtA\<close>, its query answers false for the added extension, the
  accessor for it posts \<^verbatim>\<open>ExtensionMissing\<close>, and \<^verbatim>\<open>DeviceInfo\<close>, which asks that
  query before adding \<^verbatim>\<open>VK_EXT_memory_budget\<close>, adds nothing. When the request names
  the extension itself, \<^verbatim>\<open>DeviceInfo\<close> adds \<^verbatim>\<open>VK_EXT_memory_budget\<close> and, unlike
  the instance, records what it added.
\<close>

theorem auto_enabled_extension_not_recorded:
  "hasInstanceExtension scenario_tables gpdp2_library
     (KHR_get_physical_device_properties2 scenario_tables) \<and>
   CompiledInstanceCreateInfo_ctor scenario_tables gpdp2_library scenario_request =
     Inr \<lparr>appInfo_apiVersion = ApiVersion_uint32 (mkApiVersion 1 2 0),
          reqExtensionsNames = [''VK_ExtA'', ''VK_KHR_get_physical_device_properties2''],
          reqLayerNames = []\<rparr> \<and>
   Instance_ctor scenario_tables gpdp2_library scenario_request =
     Inr (scenario_instance\<lparr>instance_parent := gpdp2_library\<rparr>) \<and>
   isExtensionEnabled (scenario_instance\<lparr>instance_parent := gpdp2_library\<rparr>)
     (KHR_get_physical_device_properties2 scenario_tables) = False \<and>
   ExtensionBase_Instance scenario_tables (KHR_get_physical_device_properties2 scenario_tables)
       (scenario_instance\<lparr>instance_parent := gpdp2_library\<rparr>) =
     Inl (ExtensionMissing 2 ''VK_KHR_get_physical_device_properties2'') \<and>
   DeviceInfo_ctor scenario_tables (scenario_instance\<lparr>instance_parent := gpdp2_library\<rparr>)
       scenario_physical =
     Inr \<lparr>m_ph_device = scenario_physical, m_enabledExtensionsRaw = [],
          m_apiVer_info = mkApiVersion 1 0 0\<rparr> \<and>
   Instance_ctor scenario_tables gpdp2_library gpdp2_request =
     Inr (scenario_instance\<lparr>instance_parent := gpdp2_library, m_enabledExtensions := {0, 2}\<rparr>) \<and>
   DeviceInfo_ctor scenario_tables
       (scenario_instance\<lparr>instance_parent := gpdp2_library, m_enabledExtensions := {0, 2}\<rparr>)
       scenario_physical =
     Inr \<lparr>m_ph_device = scenario_physical\<lparr>m_enabledExtensions_pd := [3]\<rparr>,
          m_enabledExtensionsRaw = [''VK_EXT_memory_budget''],
          m_apiVer_info = mkApiVersion 1 0 0\<rparr> \<and>
   isExtensionEnabled_pd (scenario_physical\<lparr>m_enabledExtensions_pd := [3]\<rparr>)
     (EXT_memory_budget scenario_tables) = True"
  by (simp add: eval_defs eval_device_defs ExtensionBase_Instance_def
      scenario_defs scenario_device_defs more_scenario_defs more_defs2 Let_def)


section \<open>Accessors\<close>

text \<open>
  Claim C3. Constructing \<^verbatim>\<open>ExtensionBase<id, Instance>\<close> on an instance whose enabled
  set lacks \<open>id\<close> posts \<^verbatim>\<open>ExtensionMissing\<close> carrying \<open>id\<close> and its name, and
  succeeds when the set has it; \<^verbatim>\<open>Layer<id>\<close> does the same with \<^verbatim>\<open>LayerMissing\<close>
  and the enabled layers; \<^verbatim>\<open>ExtensionBase<id, Device>\<close> on a constructed device does
  the same with the enabled list of the device's physical device. An extension the
  library advertises but the request did not name is missing on the instance built from
  that request: the accessor posts \<^verbatim>\<open>ExtensionMissing\<close>, not
  \<^verbatim>\<open>ExtensionUnsupported\<close>.
\<close>

theorem accessor_requires_enabled:
  "(\<not> isExtensionEnabled inst i \<longrightarrow>
      ExtensionBase_Instance st i inst = Inl (ExtensionMissing i (ExtensionName st i)) \<and>
      extName (ExtensionMissing i (ExtensionName st i)) = ExtensionName st i) \<and>
   (isExtensionEnabled inst j \<longrightarrow>
      ExtensionBase_Instance st j inst = Inr (ExtensionAccessor j (instance_handle inst))) \<and>
   (\<not> isLayerEnabled inst' l \<longrightarrow>
      Layer_ctor st l inst' = Inl (LayerMissing l (LayerName st l)) \<and>
      layerName (LayerMissing l (LayerName st l)) = LayerName st l) \<and>
   (isLayerEnabled instk k \<longrightarrow> Layer_ctor st k instk = Inr (LayerAccessor k)) \<and>
   (Device_ctor st parent phDevice = Inr dev \<longrightarrow>
      (\<not> isExtensionEnabled_pd (m_ph_device dev) d \<longrightarrow>
         ExtensionBase_Device st d dev = Inl (ExtensionMissing d (ExtensionName st d))) \<and>
      (isExtensionEnabled_pd (m_ph_device dev) d' \<longrightarrow>
         ExtensionBase_Device st d' dev = Inr (ExtensionAccessor d' (device_handle dev)))) \<and>
   (Instance_ctor st lib CI = Inr inst'' \<and> hasInstanceExtension st lib x \<and>
    x \<notin> set (requestedExtensions CI) \<longrightarrow>
      ExtensionBase_Instance st x inst'' = Inl (ExtensionMissing x (ExtensionName st x)))"
proof (intro conjI impI)
  assume ok: "Device_ctor st parent phDevice = Inr dev"
  from Device_ctor_Inr(3,4)[OF ok] obtain c10 where
    c10: "Instance_core (device_parent dev) 1 0 = Inr c10" by auto
  {
    assume "\<not> isExtensionEnabled_pd (m_ph_device dev) d"
    with c10 show "ExtensionBase_Device st d dev = Inl (ExtensionMissing d (ExtensionName st d))"
      by (simp add: ExtensionBase_Device_def)
  }
  {
    assume "isExtensionEnabled_pd (m_ph_device dev) d'"
    with c10 show "ExtensionBase_Device st d' dev = Inr (ExtensionAccessor d' (device_handle dev))"
      by (simp add: ExtensionBase_Device_def)
  }
next
  assume a: "Instance_ctor st lib CI = Inr inst'' \<and> hasInstanceExtension st lib x \<and>
    x \<notin> set (requestedExtensions CI)"
  then have "m_enabledExtensions inst'' = set (requestedExtensions CI)"
    using Instance_ctor_Inr(3) by blast
  with a show "ExtensionBase_Instance st x inst'' = Inl (ExtensionMissing x (ExtensionName st x))"
    by (simp add: ExtensionBase_Instance_def isExtensionEnabled_def)
qed (simp_all add: ExtensionBase_Instance_def Layer_ctor_def extName_def layerName_def)

theorem accessor_requires_enabled_witness:
  "Instance_ctor scenario_tables scenario_library scenario_request = Inr scenario_instance \<and>
   apiVersion scenario_request = mkApiVersion 1 2 0 \<and>
   m_apiVer scenario_instance = mkApiVersion 1 2 0 \<and>
   hasInstanceExtension scenario_tables scenario_library 1 \<and>
   isExtensionEnabled scenario_instance 0 \<and>
   \<not> isExtensionEnabled scenario_instance 1 \<and>
   ExtensionBase_Instance scenario_tables 1 scenario_instance =
     Inl (ExtensionMissing 1 ''VK_ExtB'') \<and>
   ExtensionBase_Instance scenario_tables 0 scenario_instance = Inr (ExtensionAccessor 0 1) \<and>
   \<not> isLayerEnabled scenario_instance 0 \<and>
   Layer_ctor scenario_tables 0 scenario_instance = Inl (LayerMissing 0 ''VK_LAYER_Debug'') \<and>
   Instance_ctor scenario_tables scenario_library layer_request =
     Inr (scenario_instance\<lparr>m_enabledLayers := {0}\<rparr>) \<and>
   isLayerEnabled (scenario_instance\<lparr>m_enabledLayers := {0}\<rparr>) 0 \<and>
   Layer_ctor scenario_tables 0 (scenario_instance\<lparr>m_enabledLayers := {0}\<rparr>) =
     Inr (LayerAccessor 0) \<and>
   Device_ctor scenario_tables scenario_instance scenario_physical_requested =
     Inr scenario_device \<and>
   \<not> isExtensionEnabled_pd (m_ph_device scenario_device) 3 \<and>
   ExtensionBase_Device scenario_tables 3 scenario_device =
     Inl (ExtensionMissing 3 ''VK_EXT_memory_budget'') \<and>
   isExtensionEnabled_pd (m_ph_device scenario_device) 1 \<and>
   ExtensionBase_Device scenario_tables 1 scenario_device = Inr (ExtensionAccessor 1 2)"
proof -
  have e: "hasInstanceExtension scenario_tables scenario_library 1"
    "isExtensionEnabled scenario_instance 0"
    "\<not> isExtensionEnabled scenario_instance 1"
    "\<not> isLayerEnabled scenario_instance 0"
    "isLayerEnabled (scenario_instance\<lparr>m_enabledLayers := {0}\<rparr>) 0"
    "\<not> isExtensionEnabled_pd (m_ph_device scenario_device) 3"
    "isExtensionEnabled_pd (m_ph_device scenario_device) 1"
    "1 \<notin> set (requestedExtensions scenario_request)"
    by (simp_all add: hasInstanceExtension_def ExtensionName_def ExtensionNames_scenario
        scenario_library_def isExtensionEnabled_def isLayerEnabled_def scenario_instance_def
        isExtensionEnabled_pd_def scenario_device_def scenario_physical_requested_def
        scenario_physical_def scenario_request_def)
  have n: "ExtensionName scenario_tables 1 = ''VK_ExtB''"
    "ExtensionName scenario_tables 3 = ''VK_EXT_memory_budget''"
    "LayerName scenario_tables 0 = ''VK_LAYER_Debug''"
    "instance_handle scenario_instance = 1" "device_handle scenario_device = 2"
    "apiVersion scenario_request = mkApiVersion 1 2 0"
    "m_apiVer scenario_instance = mkApiVersion 1 2 0"
    by (simp_all add: ExtensionName_def ExtensionNames_scenario LayerName_def
        LayerNames_scenario scenario_instance_def scenario_device_def scenario_request_def)
  from accessor_requires_enabled[where inst = scenario_instance and i = 1
      and st = scenario_tables and j = 0 and inst' = scenario_instance and l = 0
      and instk = "scenario_instance\<lparr>m_enabledLayers := {0}\<rparr>" and k = 0
      and parent = scenario_instance and phDevice = scenario_physical_requested
      and dev = scenario_device and d = 3 and d' = 1
      and lib = scenario_library and CI = scenario_request and inst'' = scenario_instance
      and x = 1]
    Instance_scenario Instance_layer_scenario Device_scenario e n
  show ?thesis by simp
qed


section \<open>Construction from a request within what is advertised\<close>

text \<open>
  Claim C4, as stated: every request within what the library advertises constructs an
  instance. It does not: the native create call can fail, and the runtime can advertise a
  version for which no core class was generated.
\<close>

theorem instance_construction_within_advertised_counterexample:
  "request_within_advertised scenario_tables failing_library scenario_request \<and>
   Instance_ctor scenario_tables failing_library scenario_request =
     Inl (VulkanError VK_ERROR_INCOMPATIBLE_DRIVER ''vkw/Instance.hpp'' 128) \<and>
   request_within_advertised scenario_tables newer_library newer_request \<and>
   Instance_ctor scenario_tables newer_library newer_request =
     Inl (ApiVersionUnsupported ''Could not load instance symbols for requested api version''
            (mkApiVersion 1 3 0) (mkApiVersion 1 4 0) SEM_VERSION)"
  by (simp add: request_within_advertised_def eval_defs scenario_defs more_scenario_defs)

text \<open>
  Claim C4, amended. For a request within what the library advertises the compiled create
  info exists and carries the requested version packed into a \<^verbatim>\<open>uint32_t\<close>. If the
  native create call on it returns \<^verbatim>\<open>VK_SUCCESS\<close>, a class of the generated chain covers
  the requested version and that class loads, the instance is constructed, holds the
  handle the call returned, owns an object of that class and records exactly the requested
  version. If the native call returns anything else the constructor posts
  \<^verbatim>\<open>VulkanError\<close> with that result. If the native call succeeds and no class of the
  chain covers the version, the constructor posts \<^verbatim>\<open>ApiVersionUnsupported\<close> naming the
  last class of the chain. On a physical device, \<^verbatim>\<open>requestApiVersion\<close> with a version
  not above the supported one records exactly that version.
\<close>

theorem instance_construction_within_advertised:
  assumes "request_within_advertised st lib CI"
  shows "\<exists>compiled. CompiledInstanceCreateInfo_ctor st lib CI = Inr compiled \<and>
           appInfo_apiVersion compiled = ApiVersion_uint32 (apiVersion CI) \<and>
           (fst (vkCreateInstance lib compiled) = VK_SUCCESS \<and>
            reached_core (instance_cores st) (apiVersion CI) = Some t \<and>
            InstanceCore_ctor lib t = None \<longrightarrow>
              (\<exists>inst. Instance_ctor st lib CI = Inr inst \<and>
                      m_apiVer inst = apiVersion CI \<and>
                      instance_handle inst = snd (vkCreateInstance lib compiled) \<and>
                      m_coreInstanceSymbols inst = t)) \<and>
           (fst (vkCreateInstance lib compiled) \<noteq> VK_SUCCESS \<longrightarrow>
              Instance_ctor st lib CI =
                Inl (VulkanError (fst (vkCreateInstance lib compiled)) ''vkw/Instance.hpp'' 128)) \<and>
           (fst (vkCreateInstance lib compiled) = VK_SUCCESS \<and>
            reached_core (instance_cores st) (apiVersion CI) = None \<longrightarrow>
              Instance_ctor st lib CI =
                Inl (ApiVersionUnsupported
                       ''Could not load instance symbols for requested api version''
                       (mkApiVersion (fst (last (core_chain (instance_cores st) 1 0)))
                          (snd (last (core_chain (instance_cores st) 1 0))) 0)
                       (apiVersion CI) SEM_VERSION)) \<and>
           (ver_le version (supportedApiVersion pd) \<longrightarrow>
              requestApiVersion pd version = Inr (pd\<lparr>m_requestedApiVersion := version\<rparr>) \<and>
              requestedApiVersion (pd\<lparr>m_requestedApiVersion := version\<rparr>) = version)"
proof -
  from compiled_within_advertised[OF assms] obtain compiled where
    c: "CompiledInstanceCreateInfo_ctor st lib CI = Inr compiled" and
    packed: "appInfo_apiVersion compiled = ApiVersion_uint32 (apiVersion CI)" by blast
  have native: "InstanceDestructor_create lib compiled = Inr (snd (vkCreateInstance lib compiled))"
    if "fst (vkCreateInstance lib compiled) = VK_SUCCESS"
    using that by (cases "vkCreateInstance lib compiled") (simp add: InstanceDestructor_create_def)
  have ok: "fst (vkCreateInstance lib compiled) = VK_SUCCESS \<and>
            reached_core (instance_cores st) (apiVersion CI) = Some t \<and>
            InstanceCore_ctor lib t = None \<longrightarrow>
              (\<exists>inst. Instance_ctor st lib CI = Inr inst \<and>
                      m_apiVer inst = apiVersion CI \<and>
                      instance_handle inst = snd (vkCreateInstance lib compiled) \<and>
                      m_coreInstanceSymbols inst = t)"
  proof
    assume a: "fst (vkCreateInstance lib compiled) = VK_SUCCESS \<and>
            reached_core (instance_cores st) (apiVersion CI) = Some t \<and>
            InstanceCore_ctor lib t = None"
    then have "loadInstanceSymbols st lib (apiVersion CI) = Inr t"
      by (simp add: loadInstanceSymbols_chain)
    with c native a show "\<exists>inst. Instance_ctor st lib CI = Inr inst \<and>
                      m_apiVer inst = apiVersion CI \<and>
                      instance_handle inst = snd (vkCreateInstance lib compiled) \<and>
                      m_coreInstanceSymbols inst = t"
      by (simp add: Instance_ctor_def)
  qed
  have bad: "fst (vkCreateInstance lib compiled) \<noteq> VK_SUCCESS \<longrightarrow>
              Instance_ctor st lib CI =
                Inl (VulkanError (fst (vkCreateInstance lib compiled)) ''vkw/Instance.hpp'' 128)"
    using c
    by (cases "vkCreateInstance lib compiled") (simp add: Instance_ctor_def InstanceDestructor_create_def)
  have none: "fst (vkCreateInstance lib compiled) = VK_SUCCESS \<and>
            reached_core (instance_cores st) (apiVersion CI) = None \<longrightarrow>
              Instance_ctor st lib CI =
                Inl (ApiVersionUnsupported
                       ''Could not load instance symbols for requested api version''
                       (mkApiVersion (fst (last (core_chain (instance_cores st) 1 0)))
                          (snd (last (core_chain (instance_cores st) 1 0))) 0)
                       (apiVersion CI) SEM_VERSION)"
    using c native by (simp add: Instance_ctor_def loadInstanceSymbols_chain)
  have dev: "ver_le version (supportedApiVersion pd) \<longrightarrow>
              requestApiVersion pd version = Inr (pd\<lparr>m_requestedApiVersion := version\<rparr>) \<and>
              requestedApiVersion (pd\<lparr>m_requestedApiVersion := version\<rparr>) = version"
    by (simp add: requestApiVersion_def requestedApiVersion_def ver_le_def ver_greater_def)
  from c packed ok bad none dev show ?thesis by blast
qed

theorem instance_construction_within_advertised_witness:
  "request_within_advertised scenario_tables scenario_library scenario_request \<and>
   reached_core (instance_cores scenario_tables) (apiVersion scenario_request) = Some (1, 2) \<and>
   InstanceCore_ctor scenario_library (1, 2) = None \<and>
   Instance_ctor scenario_tables scenario_library scenario_request = Inr scenario_instance \<and>
   m_apiVer scenario_instance = apiVersion scenario_request \<and>
   request_within_advertised scenario_tables strict_library patch_request \<and>
   ApiVersion_uint32 (apiVersion patch_request) = ApiVersion_uint32 (mkApiVersion 1 3 0) \<and>
   Instance_ctor scenario_tables strict_library patch_request =
     Inl (VulkanError VK_ERROR_INCOMPATIBLE_DRIVER ''vkw/Instance.hpp'' 128) \<and>
   request_within_advertised major_tables major_library major_request \<and>
   reached_core (instance_cores major_tables) (apiVersion major_request) = Some (2, 0) \<and>
   (\<exists>inst. Instance_ctor major_tables major_library major_request = Inr inst \<and>
           m_apiVer inst = mkApiVersion 2 0 0 \<and> m_coreInstanceSymbols inst = (2, 0)) \<and>
   request_within_advertised scenario_tables newer_library newer_request \<and>
   reached_core (instance_cores scenario_tables) (apiVersion newer_request) = None \<and>
   Instance_ctor scenario_tables newer_library newer_request =
     Inl (ApiVersionUnsupported ''Could not load instance symbols for requested api version''
            (mkApiVersion 1 3 0) (mkApiVersion 1 4 0) SEM_VERSION) \<and>
   ver_le (mkApiVersion 1 1 0) (supportedApiVersion scenario_physical) \<and>
   requestedApiVersion (scenario_physical\<lparr>m_requestedApiVersion := mkApiVersion 1 1 0\<rparr>) =
     mkApiVersion 1 1 0"
proof -
  have chain: "core_chain (instance_cores scenario_tables) 1 0 = [(1, 0), (1, 1), (1, 2), (1, 3)]"
    "core_chain (instance_cores major_tables) 1 0 = [(1, 0), (1, 1), (2, 0)]"
    by (simp_all add: core_chain.simps scenario_defs major_tables_def)
  have reach: "reached_core (instance_cores scenario_tables) (apiVersion scenario_request) = Some (1, 2)"
    "reached_core (instance_cores major_tables) (apiVersion major_request) = Some (2, 0)"
    "reached_core (instance_cores scenario_tables) (apiVersion newer_request) = None"
    unfolding reached_core_def chain
    by (simp_all add: covers_def ver_greater_def ver_less_def mkApiVersion_def UINT_MAX_def
        scenario_request_def major_request_def newer_request_def)
  have within: "request_within_advertised scenario_tables strict_library patch_request"
    "request_within_advertised major_tables major_library major_request"
    "request_within_advertised scenario_tables newer_library newer_request"
    by (simp_all add: request_within_advertised_def eval_defs scenario_defs more_scenario_defs)
  have compiled: "CompiledInstanceCreateInfo_ctor scenario_tables strict_library patch_request =
      Inr \<lparr>appInfo_apiVersion = ApiVersion_uint32 (mkApiVersion 1 2 4096),
           reqExtensionsNames = [''VK_ExtA''], reqLayerNames = []\<rparr>"
    "CompiledInstanceCreateInfo_ctor major_tables major_library major_request =
      Inr \<lparr>appInfo_apiVersion = ApiVersion_uint32 (mkApiVersion 2 0 0),
           reqExtensionsNames = [''VK_ExtA''], reqLayerNames = []\<rparr>"
    "CompiledInstanceCreateInfo_ctor scenario_tables newer_library newer_request =
      Inr \<lparr>appInfo_apiVersion = ApiVersion_uint32 (mkApiVersion 1 4 0),
           reqExtensionsNames = [''VK_ExtA''], reqLayerNames = []\<rparr>"
    by (simp_all add: eval_defs scenario_defs more_scenario_defs)
  have native: "fst (vkCreateInstance scenario_library
          \<lparr>appInfo_apiVersion = ApiVersion_uint32 (mkApiVersion 1 2 0),
           reqExtensionsNames = [''VK_ExtA''], reqLayerNames = []\<rparr>) = VK_SUCCESS"
    "fst (vkCreateInstance strict_library
          \<lparr>appInfo_apiVersion = ApiVersion_uint32 (mkApiVersion 1 2 4096),
           reqExtensionsNames = [''VK_ExtA''], reqLayerNames = []\<rparr>) = VK_ERROR_INCOMPATIBLE_DRIVER"
    "fst (vkCreateInstance major_library
          \<lparr>appInfo_apiVersion = ApiVersion_uint32 (mkApiVersion 2 0 0),
           reqExtensionsNames = [''VK_ExtA''], reqLayerNames = []\<rparr>) = VK_SUCCESS"
    "fst (vkCreateInstance newer_library
          \<lparr>appInfo_apiVersion = ApiVersion_uint32 (mkApiVersion 1 4 0),
           reqExtensionsNames = [''VK_ExtA''], reqLayerNames = []\<rparr>) = VK_SUCCESS"
    by (simp_all add: scenario_library_def strict_library_def major_library_def
        newer_library_def ApiVersion_uint32_def VK_MAKE_API_VERSION_def mkApiVersion_def)
  have parts: "InstanceCore_ctor scenario_library (1, 2) = None"
    "InstanceCore_ctor major_library (2, 0) = None"
    "m_apiVer scenario_instance = apiVersion scenario_request"
    "apiVersion major_request = mkApiVersion 2 0 0"
    "apiVersion newer_request = mkApiVersion 1 4 0"
    "ver_le (mkApiVersion 1 1 0) (supportedApiVersion scenario_physical)"
    by (simp_all add: scenario_defs major_library_def major_request_def newer_request_def
        mkApiVersion_def ver_le_def ver_less_def supportedApiVersion_def scenario_device_defs)
  note A = instance_construction_within_advertised[OF within_scenario,
      of "(1, 2)" "mkApiVersion 1 1 0" scenario_physical]
  note B = instance_construction_within_advertised[OF within(1), of "(1, 2)"]
  note C = instance_construction_within_advertised[OF within(2), of "(2, 0)"]
  note D = instance_construction_within_advertised[OF within(3), of "(1, 3)"]
  from B compiled(1) native(2)
  have b: "Instance_ctor scenario_tables strict_library patch_request =
     Inl (VulkanError VK_ERROR_INCOMPATIBLE_DRIVER ''vkw/Instance.hpp'' 128)"
    by auto
  from C compiled(2) native(3) reach(2) parts(2,4)
  have c: "\<exists>inst. Instance_ctor major_tables major_library major_request = Inr inst \<and>
           m_apiVer inst = mkApiVersion 2 0 0 \<and> m_coreInstanceSymbols inst = (2, 0)"
    by auto
  from D compiled(3) native(4) reach(3) chain(1) parts(5)
  have d: "Instance_ctor scenario_tables newer_library newer_request =
     Inl (ApiVersionUnsupported ''Could not load instance symbols for requested api version''
            (mkApiVersion 1 3 0) (mkApiVersion 1 4 0) SEM_VERSION)"
    by auto
  from A have a: "requestedApiVersion (scenario_physical\<lparr>m_requestedApiVersion := mkApiVersion 1 1 0\<rparr>) =
     mkApiVersion 1 1 0"
    using parts(6) by blast
  from within_scenario within reach parts Instance_scenario pack_patch a b c d
  show ?thesis by simp
qed

section \<open>Requests naming something that is not advertised\<close>

text \<open>
  Claim C5, as stated: every request naming a layer or extension the library does not
  advertise fails with \<^verbatim>\<open>LayerUnsupported\<close> or \<^verbatim>\<open>ExtensionUnsupported\<close>. It does
  not when the requested version is above the advertised one as well: the version is
  checked first.
\<close>

theorem unsupported_name_reported_counterexample:
  "3 \<in> set (requestedExtensions (requestApiVersion_CI unsupported_request (mkApiVersion 1 4 0))) \<and>
   \<not> hasInstanceExtension scenario_tables scenario_library 3 \<and>
   Instance_ctor scenario_tables scenario_library
       (requestApiVersion_CI unsupported_request (mkApiVersion 1 4 0)) =
     Inl (ApiVersionUnsupported ''Cannot create instance with requested api version''
            (mkApiVersion 1 3 0) (mkApiVersion 1 4 0) SEM_VERSION)"
  by (simp add: eval_defs scenario_defs more_scenario_defs more_defs2)

text \<open>
  Claim C5, amended. For a request whose version is not above the advertised one: if a
  requested layer is not advertised, construction posts \<^verbatim>\<open>LayerUnsupported\<close> for the
  first such layer of the request; if all layers are advertised and a requested extension
  is not, it posts \<^verbatim>\<open>ExtensionUnsupported\<close> for the first such extension. In both
  cases the error carries the identifier and its name accessor returns that identifier's
  name. So a request that names at least one layer or extension that is not advertised
  fails with an error naming one of them.
\<close>

theorem unsupported_name_reported:
  "(ver_le (apiVersion CI) (instanceAPIVersion lib) \<and>
    find (\<lambda>i. \<not> hasLayer st lib i) (requestedLayers CI) = Some l \<longrightarrow>
      l \<in> set (requestedLayers CI) \<and> \<not> hasLayer st lib l \<and>
      Instance_ctor st lib CI = Inl (LayerUnsupported l (LayerName st l)) \<and>
      layerName (LayerUnsupported l (LayerName st l)) = LayerName st l) \<and>
   (ver_le (apiVersion CI') (instanceAPIVersion lib') \<and>
    find (\<lambda>i. \<not> hasLayer st lib' i) (requestedLayers CI') = None \<and>
    find (\<lambda>i. \<not> hasInstanceExtension st lib' i) (requestedExtensions CI') = Some e \<longrightarrow>
      e \<in> set (requestedExtensions CI') \<and> \<not> hasInstanceExtension st lib' e \<and>
      Instance_ctor st lib' CI' = Inl (ExtensionUnsupported e (ExtensionName st e)) \<and>
      extName (ExtensionUnsupported e (ExtensionName st e)) = ExtensionName st e) \<and>
   (ver_le (apiVersion CI'') (instanceAPIVersion lib'') \<and>
    (list_ex (\<lambda>i. \<not> hasLayer st lib'' i) (requestedLayers CI'') \<or>
     list_ex (\<lambda>i. \<not> hasInstanceExtension st lib'' i) (requestedExtensions CI'')) \<longrightarrow>
      (\<exists>err. Instance_ctor st lib'' CI'' = Inl err \<and>
         ((\<exists>x. x \<in> set (requestedLayers CI'') \<and> \<not> hasLayer st lib'' x \<and>
               err = LayerUnsupported x (LayerName st x) \<and> layerName err = LayerName st x) \<or>
          (\<exists>x. x \<in> set (requestedExtensions CI'') \<and> \<not> hasInstanceExtension st lib'' x \<and>
               err = ExtensionUnsupported x (ExtensionName st x) \<and>
               extName err = ExtensionName st x))))"
proof (intro conjI impI)
  {
    assume a: "ver_le (apiVersion CI) (instanceAPIVersion lib) \<and>
      find (\<lambda>i. \<not> hasLayer st lib i) (requestedLayers CI) = Some l"
    then show "l \<in> set (requestedLayers CI)" and "\<not> hasLayer st lib l"
      using find_Some_set[of "\<lambda>i. \<not> hasLayer st lib i" "requestedLayers CI" l] by auto
    from a unsupported_first[of CI lib st l]
    show "Instance_ctor st lib CI = Inl (LayerUnsupported l (LayerName st l))" by simp
    show "layerName (LayerUnsupported l (LayerName st l)) = LayerName st l"
      by (simp add: layerName_def)
  }
  {
    assume a: "ver_le (apiVersion CI') (instanceAPIVersion lib') \<and>
      find (\<lambda>i. \<not> hasLayer st lib' i) (requestedLayers CI') = None \<and>
      find (\<lambda>i. \<not> hasInstanceExtension st lib' i) (requestedExtensions CI') = Some e"
    then show "e \<in> set (requestedExtensions CI')" and "\<not> hasInstanceExtension st lib' e"
      using find_Some_set[of "\<lambda>i. \<not> hasInstanceExtension st lib' i" "requestedExtensions CI'" e]
      by auto
    from a unsupported_first[of CI' lib' st _ e]
    show "Instance_ctor st lib' CI' = Inl (ExtensionUnsupported e (ExtensionName st e))" by simp
    show "extName (ExtensionUnsupported e (ExtensionName st e)) = ExtensionName st e"
      by (simp add: extName_def)
  }
  {
    assume a: "ver_le (apiVersion CI'') (instanceAPIVersion lib'') \<and>
      (list_ex (\<lambda>i. \<not> hasLayer st lib'' i) (requestedLayers CI'') \<or>
       list_ex (\<lambda>i. \<not> hasInstanceExtension st lib'' i) (requestedExtensions CI''))"
    then have v: "ver_le (apiVersion CI'') (instanceAPIVersion lib'')" by simp
    show "\<exists>err. Instance_ctor st lib'' CI'' = Inl err \<and>
         ((\<exists>x. x \<in> set (requestedLayers CI'') \<and> \<not> hasLayer st lib'' x \<and>
               err = LayerUnsupported x (LayerName st x) \<and> layerName err = LayerName st x) \<or>
          (\<exists>x. x \<in> set (requestedExtensions CI'') \<and> \<not> hasInstanceExtension st lib'' x \<and>
               err = ExtensionUnsupported x (ExtensionName st x) \<and>
               extName err = ExtensionName st x))"
    proof (cases "find (\<lambda>i. \<not> hasLayer st lib'' i) (requestedLayers CI'')")
      case (Some x)
      from find_Some_set[OF Some] unsupported_first[OF v, of st x] Some
      show ?thesis by (auto simp: layerName_def)
    next
      case None
      with a have "list_ex (\<lambda>i. \<not> hasInstanceExtension st lib'' i) (requestedExtensions CI'')"
        by (auto simp: find_None_set list_ex_iff)
      then obtain x where
        x: "find (\<lambda>i. \<not> hasInstanceExtension st lib'' i) (requestedExtensions CI'') = Some x"
        by (cases "find (\<lambda>i. \<not> hasInstanceExtension st lib'' i) (requestedExtensions CI'')")
          (auto simp: find_None_set list_ex_iff)
      from find_Some_set[OF x] unsupported_first[OF v, of st _ x] None x
      show ?thesis by (auto simp: extName_def)
    qed
  }
qed

theorem unsupported_name_reported_witness:
  "ver_le (apiVersion layer_request) (instanceAPIVersion layerless_library) \<and>
   find (\<lambda>i. \<not> hasLayer scenario_tables layerless_library i) (requestedLayers layer_request)
     = Some 0 \<and>
   Instance_ctor scenario_tables layerless_library layer_request =
     Inl (LayerUnsupported 0 ''VK_LAYER_Debug'') \<and>
   layerName (LayerUnsupported 0 ''VK_LAYER_Debug'') = ''VK_LAYER_Debug'' \<and>
   ver_le (apiVersion unsupported_request) (instanceAPIVersion scenario_library) \<and>
   find (\<lambda>i. \<not> hasLayer scenario_tables scenario_library i) (requestedLayers unsupported_request)
     = None \<and>
   find (\<lambda>i. \<not> hasInstanceExtension scenario_tables scenario_library i)
     (requestedExtensions unsupported_request) = Some 3 \<and>
   list_ex (\<lambda>i. \<not> hasInstanceExtension scenario_tables scenario_library i)
     (requestedExtensions unsupported_request) \<and>
   Instance_ctor scenario_tables scenario_library unsupported_request =
     Inl (ExtensionUnsupported 3 ''VK_EXT_memory_budget'') \<and>
   extName (ExtensionUnsupported 3 ''VK_EXT_memory_budget'') = ''VK_EXT_memory_budget''"
proof -
  have h: "ver_le (apiVersion layer_request) (instanceAPIVersion layerless_library)"
    "find (\<lambda>i. \<not> hasLayer scenario_tables layerless_library i) (requestedLayers layer_request)
       = Some 0"
    "ver_le (apiVersion unsupported_request) (instanceAPIVersion scenario_library)"
    "find (\<lambda>i. \<not> hasLayer scenario_tables scenario_library i)
       (requestedLayers unsupported_request) = None"
    "find (\<lambda>i. \<not> hasInstanceExtension scenario_tables scenario_library i)
       (requestedExtensions unsupported_request) = Some 3"
    "list_ex (\<lambda>i. \<not> hasInstanceExtension scenario_tables scenario_library i)
       (requestedExtensions unsupported_request)"
    "LayerName scenario_tables 0 = ''VK_LAYER_Debug''"
    "ExtensionName scenario_tables 3 = ''VK_EXT_memory_budget''"
    by (simp_all add: eval_defs scenario_defs more_scenario_defs more_defs2)
  from unsupported_name_reported[where CI = layer_request and lib = layerless_library
      and st = scenario_tables and l = 0 and CI' = unsupported_request
      and lib' = scenario_library and e = 3 and CI'' = unsupported_request
      and lib'' = scenario_library] h
  show ?thesis by (simp add: layerName_def extName_def)
qed


section \<open>Names and identifiers\<close>

text \<open>
  Claim C6. For every extension enumerator \<open>i\<close>,
  \<^verbatim>\<open>ExtensionId(ExtensionName(i))\<close> is \<open>i\<close>, and for every layer enumerator \<open>l\<close>,
  \<^verbatim>\<open>LayerId(LayerName(l))\<close> is \<open>l\<close>; a string that is not in the name array makes
  \<^verbatim>\<open>ExtensionId\<close> post \<^verbatim>\<open>ExtensionNameError\<close> and \<^verbatim>\<open>LayerId\<close> post
  \<^verbatim>\<open>LayerNameError\<close>, each carrying the string.
\<close>

theorem name_id_round_trip:
  assumes "wf_tables st"
  shows "(valid_ext st i \<longrightarrow> ExtensionId st (ExtensionName st i) = Inr i) \<and>
         (valid_layer st l \<longrightarrow> LayerId st (LayerName st l) = Inr l) \<and>
         (n \<notin> set (ExtensionNames st) \<longrightarrow> ExtensionId st n = Inl (ExtensionNameError n)) \<and>
         (n \<notin> set (LayerNames st) \<longrightarrow> LayerId st n = Inl (LayerNameError n))"
proof (intro conjI impI)
  assume v: "valid_ext st i"
  then have i: "i < length (ExtensionNames st)" by (simp add: valid_ext_def)
  from find_if_nth_distinct[OF distinct_ExtensionNames[OF assms] i] i
  show "ExtensionId st (ExtensionName st i) = Inr i"
    by (simp add: ExtensionId_def ExtensionName_def Let_def)
next
  assume v: "valid_layer st l"
  then have l: "l < length (LayerNames st)" by (simp add: valid_layer_def)
  from find_if_nth_distinct[OF distinct_LayerNames[OF assms] l] l
  show "LayerId st (LayerName st l) = Inr l"
    by (simp add: LayerId_def LayerName_def Let_def)
next
  assume "n \<notin> set (ExtensionNames st)"
  then have "find_if (\<lambda>entry. n = entry) (ExtensionNames st) = length (ExtensionNames st)"
    by (auto simp: find_if_length_iff)
  then show "ExtensionId st n = Inl (ExtensionNameError n)"
    by (simp add: ExtensionId_def Let_def)
next
  assume "n \<notin> set (LayerNames st)"
  then have "find_if (\<lambda>entry. n = entry) (LayerNames st) = length (LayerNames st)"
    by (auto simp: find_if_length_iff)
  then show "LayerId st n = Inl (LayerNameError n)"
    by (simp add: LayerId_def Let_def)
qed

theorem name_id_round_trip_witness:
  "wf_tables scenario_tables \<and> valid_ext scenario_tables 1 \<and>
   ExtensionName scenario_tables 1 = ''VK_ExtB'' \<and>
   ExtensionId scenario_tables ''VK_ExtB'' = Inr 1 \<and>
   valid_layer scenario_tables 0 \<and>
   LayerId scenario_tables (LayerName scenario_tables 0) = Inr 0 \<and>
   ''VK_bogus'' \<notin> set (ExtensionNames scenario_tables) \<and>
   ExtensionId scenario_tables ''VK_bogus'' = Inl (ExtensionNameError ''VK_bogus'') \<and>
   ''VK_bogus'' \<notin> set (LayerNames scenario_tables) \<and>
   LayerId scenario_tables ''VK_bogus'' = Inl (LayerNameError ''VK_bogus'')"
  using name_id_round_trip[OF wf_scenario_tables, of 1 0 "''VK_bogus''"] wf_scenario_tables
  by (simp add: valid_ext_def valid_layer_def ExtensionName_def
      ExtensionNames_scenario LayerNames_scenario)

section \<open>Ownership\<close>

text \<open>
  Claim C7. After a move construction of \<open>b\<close> from \<open>a\<close> the source holds the null
  handle, no destroy call has been made, destroying \<open>a\<close> makes none, and destroying
  \<open>b\<close> makes exactly one, on the handle \<open>a\<close> held, if that was not null. After a move
  assignment of \<open>c\<close> to a different \<open>d\<close> the same holds, the assignment itself
  having destroyed the handle \<open>d\<close> held before. In every state a program reaches from the
  initial one, the destroy calls made are on pairwise different handles, none of them
  null, all of them created.
\<close>

theorem unique_ownership:
  "(objects w a = Some u \<and> objects w b = None \<longrightarrow>
      (\<exists>w'. step w (MoveConstruct b a) = Some w' \<and>
            map_option ptr (objects w' a) = Some 0 \<and>
            objects w' b = Some u \<and>
            destroy_calls w' = destroy_calls w \<and>
            (\<exists>wa. step w' (Destroy a) = Some wa \<and> destroy_calls wa = destroy_calls w') \<and>
            (\<exists>wb. step w' (Destroy b) = Some wb \<and>
                  destroy_calls wb =
                    (if ptr u \<noteq> 0 then destroy_calls w' @ [(m_creator u, ptr u)]
                     else destroy_calls w')))) \<and>
   (objects m c = Some s \<and> objects m d = Some t \<and> d \<noteq> c \<longrightarrow>
      (\<exists>m'. step m (MoveAssign d c) = Some m' \<and>
            map_option ptr (objects m' c) = Some 0 \<and>
            objects m' d = Some s \<and>
            destroy_calls m' =
              (if ptr t \<noteq> 0 then destroy_calls m @ [(m_creator t, ptr t)] else destroy_calls m) \<and>
            (\<exists>mc. step m' (Destroy c) = Some mc \<and> destroy_calls mc = destroy_calls m') \<and>
            (\<exists>md. step m' (Destroy d) = Some md \<and>
                  destroy_calls md =
                    (if ptr s \<noteq> 0 then destroy_calls m' @ [(m_creator s, ptr s)]
                     else destroy_calls m')))) \<and>
   (run initial_world acts = Some r \<longrightarrow>
      distinct (destroyed_handles r) \<and> 0 \<notin> set (destroyed_handles r) \<and>
      (\<forall>h \<in> set (destroyed_handles r). 1 \<le> h \<and> h \<le> created r))"
proof (intro conjI impI)
  assume "objects w a = Some u \<and> objects w b = None"
  then have u: "objects w a = Some u" and b: "objects w b = None" by simp_all
  then have ne: "b \<noteq> a" by auto
  with u b show "\<exists>w'. step w (MoveConstruct b a) = Some w' \<and>
            map_option ptr (objects w' a) = Some 0 \<and>
            objects w' b = Some u \<and>
            destroy_calls w' = destroy_calls w \<and>
            (\<exists>wa. step w' (Destroy a) = Some wa \<and> destroy_calls wa = destroy_calls w') \<and>
            (\<exists>wb. step w' (Destroy b) = Some wb \<and>
                  destroy_calls wb =
                    (if ptr u \<noteq> 0 then destroy_calls w' @ [(m_creator u, ptr u)]
                     else destroy_calls w'))"
    by (simp add: release_def UniqueDeleter_call_def Let_def)
next
  assume "objects m c = Some s \<and> objects m d = Some t \<and> d \<noteq> c"
  then show "\<exists>m'. step m (MoveAssign d c) = Some m' \<and>
            map_option ptr (objects m' c) = Some 0 \<and>
            objects m' d = Some s \<and>
            destroy_calls m' =
              (if ptr t \<noteq> 0 then destroy_calls m @ [(m_creator t, ptr t)] else destroy_calls m) \<and>
            (\<exists>mc. step m' (Destroy c) = Some mc \<and> destroy_calls mc = destroy_calls m') \<and>
            (\<exists>md. step m' (Destroy d) = Some md \<and>
                  destroy_calls md =
                    (if ptr s \<noteq> 0 then destroy_calls m' @ [(m_creator s, ptr s)]
                     else destroy_calls m'))"
    by (simp add: release_def reset_def UniqueDeleter_call_def Let_def)
next
  assume "run initial_world acts = Some r"
  from ownership_invD(4,5,6)[OF run_inv[OF inv_initial this]]
  show "distinct (destroyed_handles r)" and "0 \<notin> set (destroyed_handles r)"
    and "\<forall>h \<in> set (destroyed_handles r). 1 \<le> h \<and> h \<le> created r"
    by (auto simp: Suc_le_eq intro: neq0_conv[THEN iffD1] ccontr)
qed


theorem unique_ownership_witness:
  "run initial_world [Construct 0 7 True, Construct 2 7 True] = Some owning_world \<and>
   objects owning_world 0 = Some \<lparr>ptr = 1, m_creator = 7\<rparr> \<and>
   objects owning_world 1 = None \<and>
   objects owning_world 2 = Some \<lparr>ptr = 2, m_creator = 7\<rparr> \<and>
   destroy_calls owning_world = [] \<and>
   (\<exists>w'. step owning_world (MoveConstruct 1 0) = Some w' \<and>
         map_option ptr (objects w' 0) = Some 0 \<and>
         objects w' 1 = Some \<lparr>ptr = 1, m_creator = 7\<rparr> \<and>
         destroy_calls w' = [] \<and>
         (\<exists>wa. step w' (Destroy 0) = Some wa \<and> destroy_calls wa = []) \<and>
         (\<exists>wb. step w' (Destroy 1) = Some wb \<and> destroy_calls wb = [(7, 1)])) \<and>
   (\<exists>m'. step owning_world (MoveAssign 2 0) = Some m' \<and>
         map_option ptr (objects m' 0) = Some 0 \<and>
         objects m' 2 = Some \<lparr>ptr = 1, m_creator = 7\<rparr> \<and>
         destroy_calls m' = [(7, 2)] \<and>
         (\<exists>mc. step m' (Destroy 0) = Some mc \<and> destroy_calls mc = [(7, 2)]) \<and>
         (\<exists>md. step m' (Destroy 2) = Some md \<and> destroy_calls md = [(7, 2), (7, 1)])) \<and>
   run initial_world move_program = Some final_world \<and>
   destroyed_handles final_world = [2, 1] \<and>
   distinct (destroyed_handles final_world) \<and>
   0 \<notin> set (destroyed_handles final_world)"
proof -
  have o: "objects owning_world 0 = Some \<lparr>ptr = 1, m_creator = 7\<rparr>"
    "objects owning_world 1 = None"
    "objects owning_world 2 = Some \<lparr>ptr = 2, m_creator = 7\<rparr>"
    "destroy_calls owning_world = []"
    "destroyed_handles final_world = [2, 1]"
    by (simp_all add: owning_world_def final_world_def destroyed_handles_def)
  note T = unique_ownership[where w = owning_world and a = 0 and b = 1
      and u = "\<lparr>ptr = 1, m_creator = 7\<rparr>" and m = owning_world and c = 0 and d = 2
      and s = "\<lparr>ptr = 1, m_creator = 7\<rparr>" and t = "\<lparr>ptr = 2, m_creator = 7\<rparr>"
      and acts = move_program and r = final_world]
  note T1 = T[THEN conjunct1, THEN mp, OF conjI[OF o(1) o(2)]]
  note T2 = T[THEN conjunct2, THEN conjunct1, THEN mp]
  note T3 = T[THEN conjunct2, THEN conjunct2, THEN mp, OF run_move_program]
  from T1 o(4) have mc: "\<exists>w'. step owning_world (MoveConstruct 1 0) = Some w' \<and>
         map_option ptr (objects w' 0) = Some 0 \<and>
         objects w' 1 = Some \<lparr>ptr = 1, m_creator = 7\<rparr> \<and>
         destroy_calls w' = [] \<and>
         (\<exists>wa. step w' (Destroy 0) = Some wa \<and> destroy_calls wa = []) \<and>
         (\<exists>wb. step w' (Destroy 1) = Some wb \<and> destroy_calls wb = [(7, 1)])"
    by auto
  from o(1,3) have "objects owning_world 0 = Some \<lparr>ptr = 1, m_creator = 7\<rparr> \<and>
      objects owning_world 2 = Some \<lparr>ptr = 2, m_creator = 7\<rparr> \<and> (2::nat) \<noteq> 0"
    by simp
  from T2[OF this] o(4) have ma: "\<exists>m'. step owning_world (MoveAssign 2 0) = Some m' \<and>
         map_option ptr (objects m' 0) = Some 0 \<and>
         objects m' 2 = Some \<lparr>ptr = 1, m_creator = 7\<rparr> \<and>
         destroy_calls m' = [(7, 2)] \<and>
         (\<exists>mc. step m' (Destroy 0) = Some mc \<and> destroy_calls mc = [(7, 2)]) \<and>
         (\<exists>md. step m' (Destroy 2) = Some md \<and> destroy_calls md = [(7, 2), (7, 1)])"
    by auto
  from T3 have fin: "distinct (destroyed_handles final_world)"
    "0 \<notin> set (destroyed_handles final_world)"
    by blast+
  from o run_owning run_move_program mc ma fin show ?thesis by blast
qed


section \<open>Reporting\<close>

text \<open>
  With exceptions enabled \<^verbatim>\<open>postError\<close> throws the error it is given; with exceptions
  disabled it runs every registered callback on the error, in the order of registration,
  and the process terminates; in neither build does it return. When the resolver does not
  find \<^verbatim>\<open>vkDestroyInstance\<close>, the instance deleter runs the callbacks on a
  \<^verbatim>\<open>VulkanError\<close> and terminates, in either build: it neither throws nor returns, and
  makes no destroy call. When the function is found the deleter returns after calling it
  on the handle.
\<close>

lemma postError_modes:
  "postError True callbacks e = (Thrown e :: ('o, 'a) outcome) \<and>
   postError False callbacks e =
     (Terminated (map (\<lambda>callback. callback e) callbacks) :: ('o, 'a) outcome) \<and>
   (postError exceptions callbacks e :: ('o, 'a) outcome) \<noteq> Returned r \<and>
   foldl addIrrecoverableErrorCallback [] registered = registered \<and>
   (postError False (foldl addIrrecoverableErrorCallback [] registered) e
      :: ('o, 'a) outcome) = Terminated (map (\<lambda>callback. callback e) registered) \<and>
   (vkGetInstanceProcAddr lib h ''vkDestroyInstance'' = None \<longrightarrow>
      InstanceDestructor_call lib callbacks h =
        Terminated (map (\<lambda>callback. callback (VulkanError VK_ERROR_UNKNOWN ''vkw/Instance.hpp'' 121))
                      callbacks) \<and>
      InstanceDestructor_call lib callbacks h \<noteq> Thrown e' \<and>
      InstanceDestructor_call lib callbacks h \<noteq> Returned d \<and>
      codeString (VulkanError VK_ERROR_UNKNOWN ''vkw/Instance.hpp'' 121) = ''Vulkan error'') \<and>
   (vkGetInstanceProcAddr lib h ''vkDestroyInstance'' = Some destroyFn \<longrightarrow>
      InstanceDestructor_call lib callbacks h = Returned (destroyFn, h))"
proof -
  have reg: "foldl addIrrecoverableErrorCallback cs registered = cs @ registered" for cs :: "'o callbacks"
    by (induction registered arbitrary: cs) (simp_all add: addIrrecoverableErrorCallback_def)
  show ?thesis
    by (simp add: postError_def irrecoverableError_def InstanceDestructor_call_def reg)
qed

lemma postError_modes_example:
  "vkGetInstanceProcAddr unresolved_library 1 ''vkDestroyInstance'' = None \<and>
   InstanceDestructor_call unresolved_library [what, codeString] 1 =
     (Terminated [what (VulkanError VK_ERROR_UNKNOWN ''vkw/Instance.hpp'' 121), ''Vulkan error'']
        :: (string, PFN \<times> VkInstance) outcome) \<and>
   vkGetInstanceProcAddr scenario_library 1 ''vkDestroyInstance'' = Some 1 \<and>
   InstanceDestructor_call scenario_library [what, codeString] 1 =
     (Returned (1, 1) :: (string, PFN \<times> VkInstance) outcome) \<and>
   (postError True [what, codeString] (LayerMissing 0 ''VK_LAYER_Debug'')
      :: (string, unit) outcome) = Thrown (LayerMissing 0 ''VK_LAYER_Debug'') \<and>
   (postError False
      (addIrrecoverableErrorCallback (addIrrecoverableErrorCallback [] what) codeString)
      (LayerMissing 0 ''VK_LAYER_Debug'') :: (string, unit) outcome) =
     Terminated [''VK_LAYER_Debug'', ''Layer missing'']"
proof -
  have h: "vkGetInstanceProcAddr unresolved_library 1 ''vkDestroyInstance'' = None"
    "vkGetInstanceProcAddr scenario_library 1 ''vkDestroyInstance'' = Some 1"
    by (simp_all add: unresolved_library_def scenario_library_def)
  have "InstanceDestructor_call unresolved_library [what, codeString] 1 =
     (Terminated [what (VulkanError VK_ERROR_UNKNOWN ''vkw/Instance.hpp'' 121), ''Vulkan error'']
        :: (string, PFN \<times> VkInstance) outcome)"
    using postError_modes[where lib = unresolved_library and h = 1
        and callbacks = "[what, codeString]" and destroyFn = 1
        and 'o = string and 'a = "PFN \<times> VkInstance"] h(1)
    by simp
  moreover have "InstanceDestructor_call scenario_library [what, codeString] 1 =
     (Returned (1, 1) :: (string, PFN \<times> VkInstance) outcome)"
    using postError_modes[where lib = scenario_library and h = 1
        and callbacks = "[what, codeString]" and destroyFn = 1
        and 'o = string and 'a = "PFN \<times> VkInstance"] h(2)
    by simp
  moreover have "(postError True [what, codeString] (LayerMissing 0 ''VK_LAYER_Debug'')
      :: (string, unit) outcome) = Thrown (LayerMissing 0 ''VK_LAYER_Debug'')"
    "(postError False
      (addIrrecoverableErrorCallback (addIrrecoverableErrorCallback [] what) codeString)
      (LayerMissing 0 ''VK_LAYER_Debug'') :: (string, unit) outcome) =
     Terminated [''VK_LAYER_Debug'', ''Layer missing'']"
    using postError_modes[where callbacks = "[what, codeString]"
        and e = "LayerMissing 0 ''VK_LAYER_Debug''" and registered = "[what, codeString]"
        and 'o = string and 'a = unit]
    by (simp_all add: addIrrecoverableErrorCallback_def)
  ultimately show ?thesis using h by simp
qed

text \<open>
  \<^verbatim>\<open>DescriptorPool::freeSet\<close> never lets an exception out. When the native free call fails
  it runs the callbacks on the \<^verbatim>\<open>VulkanError\<close> and terminates, in either build; when the
  pool was created without the free bit it returns and leaves the set count as it was.
\<close>

lemma freeSet_reports:
  "(freeSet exceptions callbacks parent flags res n :: ('o, 32 word) outcome) \<noteq> Thrown e \<and>
   (freeSet exceptions callbacks parent flags res n :: ('o, 32 word) outcome) \<noteq> Undefined \<and>
   (flags AND VK_DESCRIPTOR_POOL_CREATE_FREE_DESCRIPTOR_SET_BIT \<noteq> 0 \<and>
    Device_core parent 1 0 = Inr c10 \<and> res \<noteq> VK_SUCCESS \<longrightarrow>
      (freeSet exceptions callbacks parent flags res n :: ('o, 32 word) outcome) =
        Terminated (map (\<lambda>callback. callback (VulkanError res ''vkw/DescriptorPool.hpp'' 76))
                      callbacks)) \<and>
   (flags AND VK_DESCRIPTOR_POOL_CREATE_FREE_DESCRIPTOR_SET_BIT \<noteq> 0 \<and>
    Device_core parent 1 0 = Inr c10 \<and> res = VK_SUCCESS \<longrightarrow>
      (freeSet exceptions callbacks parent flags res n :: ('o, 32 word) outcome) = Returned (n - 1)) \<and>
   (flags AND VK_DESCRIPTOR_POOL_CREATE_FREE_DESCRIPTOR_SET_BIT = 0 \<longrightarrow>
      (freeSet exceptions callbacks parent flags res n :: ('o, 32 word) outcome) = Returned n)"
  by (simp add: freeSet_def irrecoverableError_def split: sum.splits)

lemma freeSet_reports_example:
  "(freeSet True [what, codeString] scenario_device 1 VK_ERROR_DEVICE_LOST 3
      :: (string, 32 word) outcome) =
     Terminated [what (VulkanError VK_ERROR_DEVICE_LOST ''vkw/DescriptorPool.hpp'' 76),
                 ''Vulkan error''] \<and>
   (freeSet False [what, codeString] scenario_device 1 VK_ERROR_DEVICE_LOST 3
      :: (string, 32 word) outcome) =
     Terminated [what (VulkanError VK_ERROR_DEVICE_LOST ''vkw/DescriptorPool.hpp'' 76),
                 ''Vulkan error''] \<and>
   (freeSet True [what, codeString] scenario_device 1 VK_SUCCESS 3
      :: (string, 32 word) outcome) = Returned 2 \<and>
   (freeSet True [what, codeString] scenario_device 0 VK_ERROR_DEVICE_LOST 3
      :: (string, 32 word) outcome) = Returned 3"
  by (simp add: freeSet_def irrecoverableError_def
      VK_DESCRIPTOR_POOL_CREATE_FREE_DESCRIPTOR_SET_BIT_def Device_core_def core_def
      scenario_device_defs eval_device_defs scenario_defs eval_defs mkApiVersion_def
      ver_less_def Let_def)

text \<open>
  Claim C8. A teardown failure inside a destructor, such as a native destroy function
  that does not resolve, always takes the path of the callbacks followed by termination.
  Evaluated for a library whose resolver finds every name but \<^verbatim>\<open>vkDestroyDevice\<close>:
  the instance, the physical device and the device are constructed; the device deleter
  gets a null pointer from \<^verbatim>\<open>getDestructor\<close> and calls through it, so that no callback
  runs and the terminate path is not taken. The instance deleter, in the same situation
  with \<^verbatim>\<open>vkDestroyInstance\<close>, runs the callbacks and terminates; on a library that
  resolves the name the device deleter makes its destroy call and returns.
\<close>

theorem device_teardown_unreported:
  "Instance_ctor scenario_tables device_unresolved_library scenario_request =
     Inr unresolved_instance \<and>
   PhysicalDevice_ctor scenario_tables unresolved_instance scenario_native_device =
     Inr scenario_physical \<and>
   Device_ctor scenario_tables unresolved_instance scenario_physical_requested =
     Inr unresolved_device \<and>
   getDestructor_VkDevice (device_parent unresolved_device) = None \<and>
   (DeviceDestructor_call (device_parent unresolved_device) (device_handle unresolved_device)
      :: (string, PFN \<times> VkDevice) outcome) = Undefined \<and>
   (InstanceDestructor_call unresolved_library [what, codeString] 1
      :: (string, PFN \<times> VkInstance) outcome) =
     Terminated [what (VulkanError VK_ERROR_UNKNOWN ''vkw/Instance.hpp'' 121), ''Vulkan error''] \<and>
   (DeviceDestructor_call (device_parent scenario_device) (device_handle scenario_device)
      :: (string, PFN \<times> VkDevice) outcome) = Returned (1, 2)"
  by (simp add: eval_defs eval_device_defs scenario_defs scenario_device_defs
      more_scenario_defs getDestructor_VkDevice_def DeviceDestructor_call_def
      InstanceDestructor_call_def irrecoverableError_def Let_def)

section \<open>The name arrays of the native create call\<close>

text \<open>
  Claim C9. The name arrays handed to the native create call never hold a name twice.
  Evaluated for a request that names \<open>ExtA\<close> twice and the layer \<open>Debug\<close> twice: both
  arrays of the compiled create info hold the name twice. The device-level
  \<^verbatim>\<open>enableExtension\<close> leaves the enabled list as it is when the extension is already
  in it.
\<close>

theorem duplicate_request_names_passed_twice:
  "requestedExtensions duplicate_request = [0, 0] \<and>
   requestedLayers duplicate_request = [0, 0] \<and>
   CompiledInstanceCreateInfo_ctor scenario_tables scenario_library duplicate_request =
     Inr \<lparr>appInfo_apiVersion = ApiVersion_uint32 (mkApiVersion 1 2 0),
          reqExtensionsNames = [''VK_ExtA'', ''VK_ExtA''],
          reqLayerNames = [''VK_LAYER_Debug'', ''VK_LAYER_Debug'']\<rparr> \<and>
   distinct [''VK_ExtA'', ''VK_ExtA''] = False \<and>
   enableExtension scenario_tables (scenario_physical\<lparr>m_enabledExtensions_pd := [1]\<rparr>) 1 =
     Inr (scenario_physical\<lparr>m_enabledExtensions_pd := [1]\<rparr>)"
  by (simp add: eval_defs eval_device_defs scenario_defs scenario_device_defs
      more_scenario_defs Let_def)


section \<open>Extensions of a physical device\<close>

text \<open>
  Claim C10. The constructor of \<^verbatim>\<open>PhysicalDevice\<close> never posts a name error, whatever
  names the driver enumerates: a name outside the extension name array is skipped. Every
  identifier in the resulting supported list is an enumerator whose name the driver
  reported; \<^verbatim>\<open>extensionSupported\<close> holds only for enumerators, and
  \<^verbatim>\<open>enableExtension\<close> succeeds only on enumerators and leaves the supported list as
  it is.
\<close>

theorem unknown_device_extensions_skipped:
  "PhysicalDevice_ctor st inst device \<noteq> Inl (ExtensionNameError n) \<and>
   (PhysicalDevice_ctor st inst device = Inr pd0 \<longrightarrow>
      (\<forall>e \<in> set (m_supportedExtensions pd0).
          valid_ext st e \<and> ExtensionName st e \<in> set (nd_extensions device)) \<and>
      (m_supportedExtensions pd = m_supportedExtensions pd0 \<longrightarrow>
         (extensionSupported pd e \<longrightarrow> valid_ext st e) \<and>
         (enableExtension st pd e' = Inr pd' \<longrightarrow>
            valid_ext st e' \<and> m_supportedExtensions pd' = m_supportedExtensions pd0 \<and>
            set (m_enabledExtensions_pd pd') = insert e' (set (m_enabledExtensions_pd pd)))))"
proof (intro conjI impI)
  show "PhysicalDevice_ctor st inst device \<noteq> Inl (ExtensionNameError n)"
    using PhysicalDevice_ctor_errors[of st inst device "ExtensionNameError n"] by auto
next
  assume ok: "PhysicalDevice_ctor st inst device = Inr pd0"
  note sup = PhysicalDevice_ctor_supported[OF ok]
  from sup show "\<forall>e \<in> set (m_supportedExtensions pd0).
          valid_ext st e \<and> ExtensionName st e \<in> set (nd_extensions device)"
    by auto
  assume same: "m_supportedExtensions pd = m_supportedExtensions pd0"
  {
    assume "extensionSupported pd e"
    with same sup show "valid_ext st e" by (auto simp: extensionSupported_iff)
  }
  {
    assume en: "enableExtension st pd e' = Inr pd'"
    from enableExtension_Inr(1)[OF en] same sup show "valid_ext st e'"
      by (auto simp: extensionSupported_iff)
    from enableExtension_Inr(2)[OF en] same
    show "m_supportedExtensions pd' = m_supportedExtensions pd0" by simp
    from enableExtension_Inr(3)[OF en]
    show "set (m_enabledExtensions_pd pd') = insert e' (set (m_enabledExtensions_pd pd))" .
  }
qed

theorem unknown_device_extensions_skipped_witness:
  "''VK_NV_unknown'' \<in> set (nd_extensions scenario_native_device) \<and>
   \<not> ValidExtensionName scenario_tables ''VK_NV_unknown'' \<and>
   PhysicalDevice_ctor scenario_tables scenario_instance scenario_native_device =
     Inr scenario_physical \<and>
   m_supportedExtensions scenario_physical = [1, 3] \<and>
   valid_ext scenario_tables 1 \<and> valid_ext scenario_tables 3 \<and>
   extensionSupported scenario_physical 3 \<and>
   enableExtension scenario_tables scenario_physical 1 =
     Inr (scenario_physical\<lparr>m_enabledExtensions_pd := [1]\<rparr>)"
proof -
  have e: "extensionSupported scenario_physical 3"
    "''VK_NV_unknown'' \<in> set (nd_extensions scenario_native_device)"
    "\<not> ValidExtensionName scenario_tables ''VK_NV_unknown''"
    "m_supportedExtensions scenario_physical = [1, 3]"
    by (simp_all add: extensionSupported_def scenario_physical_def scenario_native_device_def
        ValidExtensionName_def ExtensionNames_scenario)
  from unknown_device_extensions_skipped[of scenario_tables scenario_instance
      scenario_native_device "''VK_NV_unknown''" scenario_physical scenario_physical 3 1
      "scenario_physical\<lparr>m_enabledExtensions_pd := [1]\<rparr>"]
    PhysicalDevice_scenario enable_scenario e
  show ?thesis by simp
qed


end
